theory Spec2Isabelle
  imports Main "HOL-Library.Word" "HOL-Library.Signed_Division"
begin

unbundle bit_operations_syntax

section \<open>JavaScript values of the cryptography services\<close>

text \<open>
  A JavaScript \<^verbatim>\<open>Error\<close> carries its message. Every \<^verbatim>\<open>throw\<close> of the services is a
  value \<open>Inl (Error msg)\<close> of the result type; a returned value is \<open>Inr v\<close>.
\<close>

datatype js_error = Error string

type_synonym byte = "8 word"

text \<open>
  A share as \<^verbatim>\<open>generateShares\<close> builds it: \<^verbatim>\<open>{ x, y: y.toString() }\<close>. The field
  \<^verbatim>\<open>x\<close> is a JavaScript number holding an integer, the field \<^verbatim>\<open>y\<close> is a string.
\<close>

record share =
  share_x :: int
  share_y :: string

subsection \<open>BigInt arithmetic\<close>

text \<open>
  BigInt \<^verbatim>\<open>/\<close> truncates toward zero and \<^verbatim>\<open>%\<close> takes the sign of the dividend: these
  are \<open>sdiv\<close> and \<open>smod\<close> on \<open>int\<close>. \<^verbatim>\<open>BigInt(s)\<close> on a string of decimal digits
  and \<^verbatim>\<open>n.toString()\<close> are written out.
\<close>

definition digit_val :: "char \<Rightarrow> int" where
  "digit_val c = int (of_char c) - 48"

definition is_digit :: "char \<Rightarrow> bool" where
  "is_digit c = (48 \<le> (of_char c :: nat) \<and> (of_char c :: nat) \<le> 57)"

text \<open>\<^verbatim>\<open>BigInt(s)\<close> for a string of decimal digits (the strings \<^verbatim>\<open>/^\d+$/\<close> admits).\<close>

definition BigInt_of_string :: "string \<Rightarrow> int" where
  "BigInt_of_string s = foldl (\<lambda>acc c. acc * 10 + digit_val c) 0 s"

definition digit_char :: "int \<Rightarrow> char" where
  "digit_char d = char_of (48 + d)"

text \<open>The decimal digits of a BigInt that is not negative.\<close>

function toString_digits :: "int \<Rightarrow> string" where
  "toString_digits n =
     (if n < 10 then [digit_char n] else toString_digits (n div 10) @ [digit_char (n mod 10)])"
  by pat_completeness auto
termination
  by (relation "measure nat") auto

definition BigInt_toString :: "int \<Rightarrow> string" where
  "BigInt_toString n = (if n < 0 then CHR ''-'' # toString_digits (- n) else toString_digits n)"

subsection \<open>ProductionShamirService: field arithmetic\<close>

definition getPrime :: int where
  "getPrime = 115792089210356248762697446949407573529996955224135760342422259061068512044369"

text \<open>
  \<^verbatim>\<open>modInverse(a, m)\<close>: the loop \<^verbatim>\<open>while (r !== 0n)\<close> of the extended Euclidean
  algorithm, on the six variables of the source; it returns \<^verbatim>\<open>old_s\<close>.
\<close>

function modInverse_loop :: "int \<Rightarrow> int \<Rightarrow> int \<Rightarrow> int \<Rightarrow> int \<Rightarrow> int \<Rightarrow> int" where
  "modInverse_loop old_r r old_s s old_t t =
     (if r \<noteq> 0 then
        (let quotient = old_r sdiv r
         in modInverse_loop r (old_r - quotient * r) s (old_s - quotient * s)
              t (old_t - quotient * t))
      else old_s)"
  by pat_completeness auto
termination
proof (relation "measure (\<lambda>(old_r, r, old_s, s, old_t, t). nat \<bar>r\<bar>)")
  show "wf (measure (\<lambda>(old_r, r, old_s, s, old_t, t). nat \<bar>r\<bar>))"
    by simp
next
  fix old_r r old_s s old_t t quotient :: int
  assume r: "r \<noteq> 0" and q: "quotient = old_r sdiv r"
  have "old_r - quotient * r = old_r smod r"
    unfolding q by (rule minus_sdiv_mult_eq_smod)
  moreover have "\<bar>old_r smod r\<bar> < \<bar>r\<bar>"
    using r by (simp add: signed_modulo_int_def abs_mult abs_sgn_eq)
  ultimately show "((r, old_r - quotient * r, s, old_s - quotient * s, t, old_t - quotient * t),
      (old_r, r, old_s, s, old_t, t)) \<in> measure (\<lambda>(old_r, r, old_s, s, old_t, t). nat \<bar>r\<bar>)"
    by simp
qed

definition modInverse :: "int \<Rightarrow> int \<Rightarrow> int" where
  "modInverse a m = ((modInverse_loop a m 1 0 0 1 smod m) + m) smod m"

text \<open>\<^verbatim>\<open>evaluatePolynomial\<close>: the loop over the coefficients carries (result, power); the variable \<^verbatim>\<open>power\<close> is \<open>pwr\<close> here.\<close>

fun evaluatePolynomial_loop :: "int list \<Rightarrow> int \<Rightarrow> int \<Rightarrow> int \<Rightarrow> int \<Rightarrow> int" where
  "evaluatePolynomial_loop [] x prime result pwr = result"
| "evaluatePolynomial_loop (coeff # coefficients) x prime result pwr =
     evaluatePolynomial_loop coefficients x prime
       ((result + (coeff * pwr)) smod prime) ((pwr * x) smod prime)"

definition evaluatePolynomial :: "int list \<Rightarrow> int \<Rightarrow> int \<Rightarrow> int" where
  "evaluatePolynomial coefficients x prime = evaluatePolynomial_loop coefficients x prime 0 1"

definition bytesToFieldElement :: "byte list \<Rightarrow> int \<Rightarrow> int" where
  "bytesToFieldElement bytes prime =
     foldl (\<lambda>result b. (result * 256 + uint b) smod prime) 0 bytes"

subsection \<open>ProductionShamirService: reconstruction\<close>

text \<open>
  \<^verbatim>\<open>_validateShares\<close>. The argument is a list, so \<^verbatim>\<open>Array.isArray\<close> holds. The set of
  the x values has as many elements as the list exactly when they are distinct. For an
  integer \<^verbatim>\<open>x\<close>, \<^verbatim>\<open>!share.x\<close> holds for 0 only and \<^verbatim>\<open>parseInt(share.x)\<close> is never NaN;
  \<^verbatim>\<open>!share.y\<close> holds for the empty string, which \<^verbatim>\<open>/^\d+$/\<close> rejects too.
\<close>

definition share_format_ok :: "share \<Rightarrow> bool" where
  "share_format_ok s =
     (\<not> (share_x s = 0 \<or> share_y s = [] \<or> \<not> (share_y s \<noteq> [] \<and> list_all is_digit (share_y s))))"

definition validateShares :: "share list \<Rightarrow> js_error + unit" where
  "validateShares shares =
     (if length shares < 2 then Inl (Error ''At least 2 valid shares are required'')
      else if card (set (map share_x shares)) \<noteq> length shares
        then Inl (Error ''Duplicate share indices detected'')
      else if \<not> list_all share_format_ok shares then Inl (Error ''Invalid share format'')
      else Inr ())"

text \<open>
  \<^verbatim>\<open>_constantTimeLagrangeInterpolation\<close>: the body of the inner loop on (numerator,
  denominator), the inner loop over every j, the body of the outer loop on the result.
\<close>

definition lagrange_inner_step :: "share list \<Rightarrow> int \<Rightarrow> int \<Rightarrow> nat \<Rightarrow> int \<times> int \<Rightarrow> nat \<Rightarrow> int \<times> int" where
  "lagrange_inner_step shares x prime i nd j =
     (let numerator = fst nd; denominator = snd nd;
          xi = share_x (shares ! i);
          xj = share_x (shares ! j);
          term1 = (x - xj) smod prime;
          term2 = (xi - xj) smod prime;
          shouldUpdate = (if i \<noteq> j then 1 else 0)
      in ((numerator * (term1 * shouldUpdate + 1 * (1 - shouldUpdate))) smod prime,
          (denominator * (term2 * shouldUpdate + 1 * (1 - shouldUpdate))) smod prime))"

definition lagrange_outer_step :: "share list \<Rightarrow> int \<Rightarrow> int \<Rightarrow> int \<Rightarrow> nat \<Rightarrow> int" where
  "lagrange_outer_step shares x prime result i =
     (let nd = foldl (lagrange_inner_step shares x prime i) (1, 1) [0..<length shares];
          numerator = fst nd; denominator = snd nd;
          inverseDenominator = modInverse denominator prime;
          basis = (numerator * inverseDenominator) smod prime;
          yi = BigInt_of_string (share_y (shares ! i))
      in (result + (yi * basis) smod prime) smod prime)"

definition constantTimeLagrangeInterpolation :: "share list \<Rightarrow> int \<Rightarrow> int \<Rightarrow> int" where
  "constantTimeLagrangeInterpolation shares x prime =
     (let result = foldl (lagrange_outer_step shares x prime) 0 [0..<length shares]
      in (result + prime) smod prime)"

text \<open>\<^verbatim>\<open>fieldElementToHex\<close>: \<^verbatim>\<open>toString(16).padStart(64, '0')\<close>.\<close>

definition hex_digit :: "int \<Rightarrow> char" where
  "hex_digit d = (if d < 10 then char_of (48 + d) else char_of (87 + d))"

function toString16_digits :: "int \<Rightarrow> string" where
  "toString16_digits n =
     (if n < 16 then [hex_digit n] else toString16_digits (n div 16) @ [hex_digit (n mod 16)])"
  by pat_completeness auto
termination
  by (relation "measure nat") auto

definition padStart :: "nat \<Rightarrow> char \<Rightarrow> string \<Rightarrow> string" where
  "padStart n c s = replicate (n - length s) c @ s"

definition fieldElementToHex :: "int \<Rightarrow> string" where
  "fieldElementToHex fieldElement =
     padStart 64 (CHR ''0'')
       (if fieldElement < 0 then CHR ''-'' # toString16_digits (- fieldElement)
        else toString16_digits fieldElement)"

text \<open>
  \<^verbatim>\<open>reconstructSecret\<close>: validation, interpolation at 0, conversion to hex; every error
  is rethrown with the prefix of the \<^verbatim>\<open>catch\<close> block.
\<close>

definition reconstructSecret :: "share list \<Rightarrow> js_error + string" where
  "reconstructSecret shares =
     (case validateShares shares of
        Inl (Error message) \<Rightarrow> Inl (Error (''Secret reconstruction failed: '' @ message))
      | Inr _ \<Rightarrow>
          (let prime = getPrime;
               secret = constantTimeLagrangeInterpolation shares 0 prime
           in Inr (fieldElementToHex secret)))"

subsection \<open>ProductionShamirService: share generation\<close>

text \<open>
  \<^verbatim>\<open>hexToBytes\<close> and \<^verbatim>\<open>utf8ToBytes\<close> of the hashing library: two hexadecimal digits
  per byte, an error for an odd length or another character; a string is the list of
  its UTF-8 bytes already.
\<close>

definition hex_val :: "char \<Rightarrow> nat option" where
  "hex_val c =
     (let n = (of_char c :: int)
      in if 48 \<le> n \<and> n \<le> 57 then Some (nat (n - 48))
         else if 65 \<le> n \<and> n \<le> 70 then Some (nat (n - 55))
         else if 97 \<le> n \<and> n \<le> 102 then Some (nat (n - 87))
         else None)"

fun hexToBytes :: "string \<Rightarrow> js_error + byte list" where
  "hexToBytes [] = Inr []"
| "hexToBytes [c] = Inl (Error ''hex string expected, got unpadded hex'')"
| "hexToBytes (c1 # c2 # cs) =
     (case (hex_val c1, hex_val c2) of
        (Some n1, Some n2) \<Rightarrow>
          (case hexToBytes cs of
             Inl e \<Rightarrow> Inl e
           | Inr bs \<Rightarrow> Inr (word_of_nat (n1 * 16 + n2) # bs))
      | _ \<Rightarrow> Inl (Error ''hex string expected, got non-hex character''))"

definition utf8ToBytes :: "string \<Rightarrow> byte list" where
  "utf8ToBytes s = map of_char s"

text \<open>
  \<^verbatim>\<open>_validateInputs\<close>. The key is a string; \<^verbatim>\<open>numShares\<close> and \<^verbatim>\<open>threshold\<close> are
  JavaScript numbers holding integers.
\<close>

definition validateInputs :: "string \<Rightarrow> int \<Rightarrow> int \<Rightarrow> js_error + unit" where
  "validateInputs privateKeyHex numShares threshold =
     (if privateKeyHex = [] \<or> length privateKeyHex < 64
        then Inl (Error ''Invalid private key format'')
      else if numShares < 2 \<or> numShares > 100
        then Inl (Error ''Number of shares must be between 2 and 100'')
      else if threshold < 2 \<or> threshold > numShares
        then Inl (Error (''Threshold must be between 2 and '' @ BigInt_toString numShares))
      else Inr ())"

text \<open>
  Reading a typed array beyond its end gives \<^verbatim>\<open>undefined\<close>, which \<^verbatim>\<open>^\<close> takes as 0.
\<close>

definition byte_at :: "byte list \<Rightarrow> nat \<Rightarrow> byte" where
  "byte_at bs i = (if i < length bs then bs ! i else 0)"

text \<open>
  \<^verbatim>\<open>_secureRandomFieldElement\<close>; the 32 bytes that \<^verbatim>\<open>randomBytes(32)\<close> returns are
  the argument \<open>randomBytes32\<close>.
\<close>

definition secureRandomFieldElement :: "int \<Rightarrow> string \<Rightarrow> byte list \<Rightarrow> int" where
  "secureRandomFieldElement prime extraEntropy randomBytes32 =
     (let entropyBytes = utf8ToBytes extraEntropy;
          combined = map (\<lambda>i. byte_at randomBytes32 i
                               XOR (if i < length entropyBytes then entropyBytes ! i else 0))
                       [0..<32]
      in bytesToFieldElement combined prime)"

text \<open>
  \<^verbatim>\<open>generateShares\<close>. The two sources of randomness are arguments: \<open>extraEntropy\<close> is
  the string that \<^verbatim>\<open>_generateExtraEntropy\<close> returns, \<open>rnd i\<close> the 32 random bytes drawn
  for the coefficient i. Wiping the buffers at the end does not change the result.
\<close>

definition generateShares ::
  "string \<Rightarrow> (int \<Rightarrow> byte list) \<Rightarrow> string \<Rightarrow> int \<Rightarrow> int \<Rightarrow> js_error + share list" where
  "generateShares extraEntropy rnd privateKeyHex numShares threshold =
     (case validateInputs privateKeyHex numShares threshold of
        Inl (Error message) \<Rightarrow> Inl (Error (''Share generation failed: '' @ message))
      | Inr _ \<Rightarrow>
     (case hexToBytes privateKeyHex of
        Inl (Error message) \<Rightarrow> Inl (Error (''Share generation failed: '' @ message))
      | Inr privateKeyBytes \<Rightarrow>
          (let prime = getPrime;
               secret = bytesToFieldElement privateKeyBytes prime;
               coefficients = secret #
                 map (\<lambda>i. secureRandomFieldElement prime (extraEntropy @ BigInt_toString i) (rnd i))
                   [1..threshold - 1];
               shares = map (\<lambda>x. \<lparr> share_x = x,
                                    share_y = BigInt_toString (evaluatePolynomial coefficients x prime) \<rparr>)
                          [1..numShares]
           in Inr shares)))"

subsection \<open>A sample split\<close>

text \<open>
  A 32-byte key, an entropy string of 64 hexadecimal characters, and the random bytes of
  the two draws of a split with threshold 3. The coefficients that result are 7 and 3.
\<close>

definition sample_privateKeyHex :: string where
  "sample_privateKeyHex = ''0000000000000000000000000000000000000000000000000000000000000005''"

definition sample_extraEntropy :: string where
  "sample_extraEntropy = ''3a7f0c2e9b1d4f6a8c0e2a4b6d8f1a3c5e7092b4d6f8a1c3e5f70911b3d5f7a9''"

definition sample_randomBytes :: "int \<Rightarrow> byte list" where
  "sample_randomBytes i =
     [51, 97, 55, 102, 48, 99, 50, 101, 57, 98, 49, 100, 52, 102, 54, 97,
      56, 99, 48, 101, 50, 97, 52, 98, 54, 100, 56, 102, 49, 97, 51,
      (if i = 1 then 100 else 96)]"

section \<open>The share contracts\<close>

text \<open>
  An address is the zero address, an externally owned account, the registry, or a share
  contract that the registry created: the n-th contract it creates gets the address
  \<open>ShareContractAddress n\<close>, which no account and no other contract has. A \<^verbatim>\<open>uint256\<close> is a
  natural number; the checked arithmetic of Solidity 0.8 is the error \<open>Panic\<close> where it
  can overflow or underflow. A failed \<^verbatim>\<open>require\<close> is \<open>Revert\<close> with its message, and
  the state of a reverted call is the state before the call. Events are not modelled;
  \<^verbatim>\<open>nonReentrant\<close> never fails, since no modelled call re-enters the registry's
  guarded functions.
\<close>

datatype address = ZeroAddress | Account nat | RegistryAddress | ShareContractAddress nat

datatype sol_error = Revert string | Panic

type_synonym bytes = "byte list"

type_synonym bytes32 = nat

text \<open>The arguments of \<^verbatim>\<open>abi.encodePacked\<close>; \<^verbatim>\<open>keccak256\<close> of them is a parameter.\<close>

datatype abi_value =
    AbiAddress address
  | AbiUint nat
  | AbiString string
  | AbiAddresses "address list"

record tx_env =
  msg_sender :: address
  msg_value :: nat
  block_timestamp :: nat

text \<open>The first natural number that is not a \<^verbatim>\<open>uint256\<close>: 2 to the power 256.\<close>

definition uint256_limit :: nat where
  "uint256_limit =
     115792089237316195423570985008687907853269984665640564039457584007913129639936"

subsection \<open>SecureShareContract\<close>

record SecureShareContract =
  sc_owner :: address
  sc_registry :: address
  sc_encryptedShare :: bytes
  sc_isActive :: bool
  sc_lastAccessed :: nat
  sc_accessCount :: nat
  sc_lastAccessByAddress :: "address \<Rightarrow> nat"

definition SecureShareContract_constructor ::
  "address \<Rightarrow> address \<Rightarrow> bytes \<Rightarrow> sol_error + SecureShareContract" where
  "SecureShareContract_constructor owner' registry' encryptedShare' =
     (if \<not> owner' \<noteq> ZeroAddress then Inl (Revert ''Invalid owner'')
      else if \<not> registry' \<noteq> ZeroAddress then Inl (Revert ''Invalid registry'')
      else if \<not> length encryptedShare' > 0 then Inl (Revert ''Empty share data'')
      else Inr \<lparr> sc_owner = owner', sc_registry = registry',
                 sc_encryptedShare = encryptedShare', sc_isActive = True,
                 sc_lastAccessed = 0, sc_accessCount = 0,
                 sc_lastAccessByAddress = (\<lambda>_. 0) \<rparr>)"

definition deactivate :: "address \<Rightarrow> SecureShareContract \<Rightarrow> sol_error + SecureShareContract" where
  "deactivate sender c =
     (if \<not> (sender = sc_owner c \<or> sender = sc_registry c) then Inl (Revert ''Not authorized'')
      else Inr (c\<lparr> sc_isActive := False \<rparr>))"

definition updateShare ::
  "address \<Rightarrow> bytes \<Rightarrow> SecureShareContract \<Rightarrow> sol_error + SecureShareContract" where
  "updateShare sender newEncryptedShare c =
     (if \<not> (sender = sc_owner c \<or> sender = sc_registry c) then Inl (Revert ''Not authorized'')
      else if \<not> sc_isActive c then Inl (Revert ''Share is inactive'')
      else if \<not> length newEncryptedShare > 0 then Inl (Revert ''Empty share data'')
      else Inr (c\<lparr> sc_encryptedShare := newEncryptedShare \<rparr>))"

subsection \<open>SecureShareRegistry: state and views\<close>

record ShareConfig =
  cfg_totalShares :: nat
  cfg_threshold :: nat
  cfg_creationTime :: nat
  cfg_isActive :: bool
  cfg_configHash :: bytes32

record RecoveryRequest =
  req_initiator :: address
  req_requestTime :: nat
  req_expiresAt :: nat
  req_requestHash :: bytes32
  req_isActive :: bool

text \<open>
  The state variables of the registry, with the owner of \<^verbatim>\<open>Ownable\<close> and the flag of
  \<^verbatim>\<open>Pausable\<close>. A Solidity mapping is a total function: a key never written reads as zero.
\<close>

record SecureShareRegistry =
  ownable_owner :: address
  pausable_paused :: bool
  serviceFee :: nat
  feeCollector :: address
  shareConfigs :: "address \<Rightarrow> ShareConfig"
  userShares :: "address \<Rightarrow> address list"
  recoveryAddresses :: "address \<Rightarrow> address list"
  emergencyContacts :: "address \<Rightarrow> address"
  recoveryRequests :: "address \<Rightarrow> RecoveryRequest"
  blacklisted :: "address \<Rightarrow> bool"
  feeExemptions :: "address \<Rightarrow> bool"
  lastActionTimestamp :: "address \<Rightarrow> nat"
  failedAttempts :: "address \<Rightarrow> nat"

text \<open>
  The registry together with the share contracts it has created (the store of their
  states, by address) and the number of contracts created so far.
\<close>

record chain =
  registry :: SecureShareRegistry
  deployed :: "address \<rightharpoonup> SecureShareContract"
  created :: nat

definition hasShares :: "SecureShareRegistry \<Rightarrow> address \<Rightarrow> bool" where
  "hasShares reg user =
     (cfg_totalShares (shareConfigs reg user) > 0 \<and> cfg_isActive (shareConfigs reg user))"

fun isRecoveryAddress_loop :: "address list \<Rightarrow> address \<Rightarrow> bool" where
  "isRecoveryAddress_loop [] recoveryAddr = False"
| "isRecoveryAddress_loop (a # addresses) recoveryAddr =
     (if a = recoveryAddr then True else isRecoveryAddress_loop addresses recoveryAddr)"

definition isRecoveryAddress :: "SecureShareRegistry \<Rightarrow> address \<Rightarrow> address \<Rightarrow> bool" where
  "isRecoveryAddress reg user recoveryAddr =
     isRecoveryAddress_loop (recoveryAddresses reg user) recoveryAddr"

text \<open>\<^verbatim>\<open>isAuthorizedForShare\<close>; \<open>now\<close> is \<^verbatim>\<open>block.timestamp\<close> of the call.\<close>

definition isAuthorizedForShare ::
  "SecureShareRegistry \<Rightarrow> nat \<Rightarrow> address \<Rightarrow> address \<Rightarrow> bool" where
  "isAuthorizedForShare reg now owner' accessor =
     (if owner' = accessor then True
      else if isRecoveryAddress reg owner' accessor then True
      else if emergencyContacts reg owner' = accessor then True
      else (let request = recoveryRequests reg owner'
            in if req_isActive request \<and> req_initiator request = accessor
                  \<and> now \<ge> req_expiresAt request
               then True else False))"

text \<open>
  \<^verbatim>\<open>SecureShareContract.getShare\<close>. The call to the registry inside \<^verbatim>\<open>try\<close> is
  \<open>isAuthorizedForShare\<close> when the contract's registry is the registry; for any other
  address the \<^verbatim>\<open>catch\<close> branch gives false.
\<close>

definition SecureShareContract_getShare ::
  "SecureShareRegistry \<Rightarrow> tx_env \<Rightarrow> SecureShareContract \<Rightarrow> sol_error + (bytes \<times> SecureShareContract)" where
  "SecureShareContract_getShare reg tx c =
     (if \<not> sc_isActive c then Inl (Revert ''Share is inactive'')
      else
        (let isAuthorized0 = (msg_sender tx = sc_owner c);
             isAuthorized =
               (if \<not> isAuthorized0
                then (if sc_registry c = RegistryAddress
                      then isAuthorizedForShare reg (block_timestamp tx) (sc_owner c) (msg_sender tx)
                      else False)
                else isAuthorized0)
         in if \<not> isAuthorized then Inl (Revert ''Not authorized for this share'')
            else if msg_sender tx \<noteq> sc_owner c
                    \<and> block_timestamp tx < sc_lastAccessByAddress c (msg_sender tx)
              then Inl Panic
            else if msg_sender tx \<noteq> sc_owner c
                    \<and> \<not> block_timestamp tx - sc_lastAccessByAddress c (msg_sender tx) \<ge> 300
              then Inl (Revert ''Access too frequent'')
            else if \<not> sc_accessCount c + 1 < uint256_limit then Inl Panic
            else Inr (sc_encryptedShare c,
                      c\<lparr> sc_lastAccessed := block_timestamp tx,
                         sc_lastAccessByAddress :=
                           (sc_lastAccessByAddress c)(msg_sender tx := block_timestamp tx),
                         sc_accessCount := sc_accessCount c + 1 \<rparr>)))"

definition isAuthorized :: "SecureShareRegistry \<Rightarrow> nat \<Rightarrow> SecureShareContract \<Rightarrow> address \<Rightarrow> bool" where
  "isAuthorized reg now c caller =
     (if caller = sc_owner c then True
      else if sc_registry c = RegistryAddress then isAuthorizedForShare reg now (sc_owner c) caller
      else False)"

subsection \<open>SecureShareRegistry: internal functions\<close>

definition checkBlacklist :: "SecureShareRegistry \<Rightarrow> address \<Rightarrow> sol_error + unit" where
  "checkBlacklist reg account =
     (if \<not> \<not> blacklisted reg account then Inl (Revert ''Address is blacklisted'') else Inr ())"

text \<open>
  \<^verbatim>\<open>_throttleRequests\<close>, with \<^verbatim>\<open>1 days\<close> = 86400, \<^verbatim>\<open>1 hours\<close> = 3600 and
  \<^verbatim>\<open>THROTTLE_DURATION\<close> = 300 seconds, \<^verbatim>\<open>MAX_FAILED_ATTEMPTS\<close> = 5. The subtraction
  \<^verbatim>\<open>block.timestamp - lastActionTimestamp[account]\<close> underflows when the last action is
  in the future.
\<close>

definition throttleRequests ::
  "SecureShareRegistry \<Rightarrow> nat \<Rightarrow> address \<Rightarrow> sol_error + SecureShareRegistry" where
  "throttleRequests reg now account =
     (if account = ownable_owner reg then Inr reg
      else if now < lastActionTimestamp reg account then Inl Panic
      else
        (let elapsed = now - lastActionTimestamp reg account;
             reg1 = (if elapsed > 86400
                     then reg\<lparr> failedAttempts := (failedAttempts reg)(account := 0) \<rparr>
                     else reg)
         in if failedAttempts reg1 account \<ge> 5 \<and> \<not> elapsed > 3600
              then Inl (Revert ''Too many failed attempts, try again later'')
            else
              (let reg2 = (if failedAttempts reg1 account \<ge> 5
                           then reg1\<lparr> failedAttempts := (failedAttempts reg1)(account := 0) \<rparr>
                           else reg1)
               in if \<not> elapsed \<ge> 300
                    then Inl (Revert ''Please wait before making another request'')
                  else Inr reg2)))"

subsection \<open>SecureShareRegistry: transactions\<close>

text \<open>The registry after its constructor, with no share contract created yet.\<close>

definition SecureShareRegistry_constructor ::
  "address \<Rightarrow> nat \<Rightarrow> address \<Rightarrow> sol_error + chain" where
  "SecureShareRegistry_constructor deployer initialServiceFee initialFeeCollector =
     (if \<not> initialFeeCollector \<noteq> ZeroAddress then Inl (Revert ''Invalid fee collector'')
      else Inr \<lparr> registry =
                   \<lparr> ownable_owner = deployer, pausable_paused = False,
                     serviceFee = initialServiceFee, feeCollector = initialFeeCollector,
                     shareConfigs = (\<lambda>_. \<lparr> cfg_totalShares = 0, cfg_threshold = 0,
                       cfg_creationTime = 0, cfg_isActive = False, cfg_configHash = 0 \<rparr>),
                     userShares = (\<lambda>_. []),
                     recoveryAddresses = (\<lambda>_. []),
                     emergencyContacts = (\<lambda>_. ZeroAddress),
                     recoveryRequests = (\<lambda>_. \<lparr> req_initiator = ZeroAddress, req_requestTime = 0,
                       req_expiresAt = 0, req_requestHash = 0, req_isActive = False \<rparr>),
                     blacklisted = (\<lambda>_. False), feeExemptions = (\<lambda>_. False),
                     lastActionTimestamp = (\<lambda>_. 0), failedAttempts = (\<lambda>_. 0) \<rparr>,
                 deployed = Map.empty, created = 0 \<rparr>)"

text \<open>
  The loop of \<^verbatim>\<open>storeShares\<close>: for each entry, the check of its length, the creation
  of a share contract owned by the sender, its address stored in the local array
  \<^verbatim>\<open>shareContracts\<close> and pushed onto \<^verbatim>\<open>userShares[msg.sender]\<close>.
\<close>

fun storeShares_loop ::
  "address \<Rightarrow> bytes list \<Rightarrow> address list \<Rightarrow> chain \<Rightarrow> sol_error + (address list \<times> chain)" where
  "storeShares_loop sender [] shareContracts ch = Inr (shareContracts, ch)"
| "storeShares_loop sender (d # encryptedShareData) shareContracts ch =
     (if \<not> length d > 0 then Inl (Revert ''Empty share data'')
      else
        (case SecureShareContract_constructor sender RegistryAddress d of
           Inl e \<Rightarrow> Inl e
         | Inr newContract \<Rightarrow>
             (let a = ShareContractAddress (created ch);
                  reg = registry ch
              in storeShares_loop sender encryptedShareData (shareContracts @ [a])
                   (ch\<lparr> deployed := (deployed ch)(a \<mapsto> newContract),
                        created := created ch + 1,
                        registry := reg\<lparr> userShares :=
                          (userShares reg)(sender := userShares reg sender @ [a]) \<rparr> \<rparr>))))"

text \<open>
  \<^verbatim>\<open>storeShares\<close>. \<open>keccak256\<close> is the hash function and \<open>feeCallSucceeds\<close> the outcome
  of the call that forwards the fee to the collector; balances are not modelled.
\<close>

definition storeShares ::
  "(abi_value list \<Rightarrow> bytes32) \<Rightarrow> bool \<Rightarrow> tx_env \<Rightarrow> bytes list \<Rightarrow> nat \<Rightarrow> chain
     \<Rightarrow> sol_error + (address list \<times> chain)" where
  "storeShares keccak256 feeCallSucceeds tx encryptedShareData threshold ch =
     (let reg = registry ch; sender = msg_sender tx
      in if pausable_paused reg then Inl (Revert ''Pausable: paused'')
         else (case checkBlacklist reg sender of Inl e \<Rightarrow> Inl e | Inr _ \<Rightarrow>
           (case throttleRequests reg (block_timestamp tx) sender of Inl e \<Rightarrow> Inl e | Inr reg1 \<Rightarrow>
              if \<not> feeExemptions reg1 sender \<and> \<not> msg_value tx \<ge> serviceFee reg1
                then Inl (Revert ''Insufficient fee'')
              else if \<not> (threshold > 0 \<and> threshold \<le> length encryptedShareData)
                then Inl (Revert ''Invalid threshold'')
              else if \<not> length encryptedShareData \<ge> 3
                then Inl (Revert ''Minimum 3 shares required'')
              else if \<not> length encryptedShareData \<le> 100
                then Inl (Revert ''Maximum 100 shares allowed'')
              else if \<not> \<not> hasShares reg1 sender then Inl (Revert ''Shares already exist'')
              else
                (case storeShares_loop sender encryptedShareData [] (ch\<lparr> registry := reg1 \<rparr>) of
                   Inl e \<Rightarrow> Inl e
                 | Inr (shareContracts, ch1) \<Rightarrow>
                     (let configHash = keccak256
                            [AbiAddress sender, AbiUint (length encryptedShareData),
                             AbiUint threshold, AbiUint (block_timestamp tx),
                             AbiAddresses shareContracts];
                          reg2 = (registry ch1)\<lparr> shareConfigs := (shareConfigs (registry ch1))
                            (sender := \<lparr> cfg_totalShares = length encryptedShareData,
                                         cfg_threshold = threshold,
                                         cfg_creationTime = block_timestamp tx,
                                         cfg_isActive = True,
                                         cfg_configHash = configHash \<rparr>) \<rparr>
                      in if msg_value tx > 0 \<and> \<not> feeCallSucceeds
                           then Inl (Revert ''Fee transfer failed'')
                         else Inr (shareContracts,
                                ch1\<lparr> registry := reg2\<lparr> lastActionTimestamp :=
                                  (lastActionTimestamp reg2)(sender := block_timestamp tx) \<rparr> \<rparr>))))))"

text \<open>
  The loop of \<^verbatim>\<open>revokeShares\<close>: the registry calls \<^verbatim>\<open>deactivate\<close> on every address of
  \<^verbatim>\<open>userShares[msg.sender]\<close>. A call to an address without a contract reverts.
\<close>

fun revokeShares_loop ::
  "address list \<Rightarrow> (address \<rightharpoonup> SecureShareContract) \<Rightarrow> sol_error + (address \<rightharpoonup> SecureShareContract)" where
  "revokeShares_loop [] dep = Inr dep"
| "revokeShares_loop (a # shares) dep =
     (case dep a of
        None \<Rightarrow> Inl (Revert [])
      | Some c \<Rightarrow>
          (case deactivate RegistryAddress c of
             Inl e \<Rightarrow> Inl e
           | Inr c' \<Rightarrow> revokeShares_loop shares (dep(a \<mapsto> c'))))"

definition revokeShares :: "tx_env \<Rightarrow> chain \<Rightarrow> sol_error + chain" where
  "revokeShares tx ch =
     (let reg = registry ch; sender = msg_sender tx
      in if \<not> hasShares reg sender then Inl (Revert ''No shares found'')
         else
           (case revokeShares_loop (userShares reg sender) (deployed ch) of
              Inl e \<Rightarrow> Inl e
            | Inr dep \<Rightarrow>
                Inr (ch\<lparr> deployed := dep,
                         registry := reg\<lparr>
                           shareConfigs := (shareConfigs reg)
                             (sender := (shareConfigs reg sender)\<lparr> cfg_isActive := False \<rparr>),
                           lastActionTimestamp :=
                             (lastActionTimestamp reg)(sender := block_timestamp tx) \<rparr> \<rparr>)))"

text \<open>
  \<^verbatim>\<open>getShare\<close> of the registry. The share contract it calls is
  \<^verbatim>\<open>userShares[user][index]\<close>; reading the array beyond its length is a panic. In the
  call to the share contract the sender is the registry.
\<close>

definition getShare_target :: "SecureShareRegistry \<Rightarrow> address \<Rightarrow> nat \<Rightarrow> address" where
  "getShare_target reg user index = userShares reg user ! index"

definition getShare :: "tx_env \<Rightarrow> address \<Rightarrow> nat \<Rightarrow> chain \<Rightarrow> sol_error + (bytes \<times> chain)" where
  "getShare tx user index ch =
     (let reg = registry ch
      in if \<not> hasShares reg user then Inl (Revert ''No shares found'')
         else if \<not> index < cfg_totalShares (shareConfigs reg user)
           then Inl (Revert ''Invalid share index'')
         else
           (case (if msg_sender tx \<noteq> user
                  then throttleRequests reg (block_timestamp tx) (msg_sender tx)
                  else Inr reg) of
              Inl e \<Rightarrow> Inl e
            | Inr reg1 \<Rightarrow>
                if \<not> index < length (userShares reg1 user) then Inl Panic
                else
                  (case deployed ch (getShare_target reg1 user index) of
                     None \<Rightarrow> Inl (Revert [])
                   | Some c \<Rightarrow>
                       (case SecureShareContract_getShare reg1
                               (tx\<lparr> msg_sender := RegistryAddress, msg_value := 0 \<rparr>) c of
                          Inl e \<Rightarrow> Inl e
                        | Inr (encryptedShare, c') \<Rightarrow>
                            Inr (encryptedShare,
                                 ch\<lparr> registry := reg1,
                                     deployed := (deployed ch)
                                       (getShare_target reg1 user index \<mapsto> c') \<rparr>)))))"

text \<open>\<^verbatim>\<open>initiateRecovery\<close>, with \<^verbatim>\<open>48 hours\<close> = 172800 seconds.\<close>

definition initiateRecovery ::
  "(abi_value list \<Rightarrow> bytes32) \<Rightarrow> tx_env \<Rightarrow> address \<Rightarrow> chain \<Rightarrow> sol_error + chain" where
  "initiateRecovery keccak256 tx user ch =
     (let reg = registry ch; sender = msg_sender tx
      in if \<not> hasShares reg user then Inl (Revert ''No shares found'')
         else if \<not> (sender = emergencyContacts reg user \<or> isRecoveryAddress reg user sender)
           then Inl (Revert ''Not authorized for recovery'')
         else if \<not> \<not> req_isActive (recoveryRequests reg user)
           then Inl (Revert ''Recovery already initiated'')
         else
           (case throttleRequests reg (block_timestamp tx) sender of
              Inl e \<Rightarrow> Inl e
            | Inr reg1 \<Rightarrow>
                if \<not> block_timestamp tx + 172800 < uint256_limit then Inl Panic
                else
                  (let expiresAt = block_timestamp tx + 172800;
                       requestHash = keccak256
                         [AbiString ''RECOVERY_REQUEST'', AbiAddress user, AbiAddress sender,
                          AbiUint (block_timestamp tx), AbiUint expiresAt]
                   in Inr (ch\<lparr> registry := reg1\<lparr>
                        recoveryRequests := (recoveryRequests reg1)
                          (user := \<lparr> req_initiator = sender,
                                     req_requestTime = block_timestamp tx,
                                     req_expiresAt = expiresAt,
                                     req_requestHash = requestHash,
                                     req_isActive = True \<rparr>),
                        lastActionTimestamp :=
                          (lastActionTimestamp reg1)(sender := block_timestamp tx) \<rparr> \<rparr>))))"

definition cancelRecovery :: "tx_env \<Rightarrow> address \<Rightarrow> chain \<Rightarrow> sol_error + chain" where
  "cancelRecovery tx user ch =
     (let reg = registry ch; sender = msg_sender tx; request = recoveryRequests reg user
      in if \<not> req_isActive request then Inl (Revert ''No active recovery'')
         else if \<not> (sender = user \<or> sender = req_initiator request \<or> sender = ownable_owner reg)
           then Inl (Revert ''Not authorized to cancel'')
         else Inr (ch\<lparr> registry := reg\<lparr>
                recoveryRequests := (recoveryRequests reg)
                  (user := request\<lparr> req_isActive := False \<rparr>),
                lastActionTimestamp :=
                  (lastActionTimestamp reg)(sender := block_timestamp tx) \<rparr> \<rparr>))"

definition addRecoveryAddress :: "tx_env \<Rightarrow> address \<Rightarrow> chain \<Rightarrow> sol_error + chain" where
  "addRecoveryAddress tx recoveryAddress ch =
     (let reg = registry ch; sender = msg_sender tx
      in if \<not> recoveryAddress \<noteq> ZeroAddress then Inl (Revert ''Invalid address'')
         else if \<not> recoveryAddress \<noteq> sender then Inl (Revert ''Cannot add self as recovery'')
         else
           (case throttleRequests reg (block_timestamp tx) sender of
              Inl e \<Rightarrow> Inl e
            | Inr reg1 \<Rightarrow>
                (case checkBlacklist reg1 recoveryAddress of
                   Inl e \<Rightarrow> Inl e
                 | Inr _ \<Rightarrow>
                     (let addresses = recoveryAddresses reg1 sender
                      in if \<not> list_all (\<lambda>a. a \<noteq> recoveryAddress) addresses
                           then Inl (Revert ''Address already added'')
                         else if \<not> length addresses < 10
                           then Inl (Revert ''Too many recovery addresses'')
                         else if \<not> block_timestamp tx + 31536000 < uint256_limit then Inl Panic
                         else Inr (ch\<lparr> registry := reg1\<lparr>
                                recoveryAddresses := (recoveryAddresses reg1)
                                  (sender := addresses @ [recoveryAddress]),
                                lastActionTimestamp :=
                                  (lastActionTimestamp reg1)(sender := block_timestamp tx) \<rparr> \<rparr>)))))"

definition setEmergencyContact :: "tx_env \<Rightarrow> address \<Rightarrow> chain \<Rightarrow> sol_error + chain" where
  "setEmergencyContact tx contact ch =
     (let reg = registry ch; sender = msg_sender tx
      in if \<not> contact \<noteq> ZeroAddress then Inl (Revert ''Invalid address'')
         else if \<not> contact \<noteq> sender then Inl (Revert ''Cannot set self as emergency contact'')
         else
           (case throttleRequests reg (block_timestamp tx) sender of
              Inl e \<Rightarrow> Inl e
            | Inr reg1 \<Rightarrow>
                (case checkBlacklist reg1 contact of
                   Inl e \<Rightarrow> Inl e
                 | Inr _ \<Rightarrow>
                     Inr (ch\<lparr> registry := reg1\<lparr>
                       emergencyContacts := (emergencyContacts reg1)(sender := contact),
                       lastActionTimestamp :=
                         (lastActionTimestamp reg1)(sender := block_timestamp tx) \<rparr> \<rparr>))))"

subsection \<open>Sample states of the registry\<close>

text \<open>
  A hash function for the samples, and the states of a sample run: account 0 deploys the
  registry with fee 10; account 1 stores three shares with threshold 2, registers
  account 2 as a recovery address, revokes, and stores three new shares.
\<close>

definition sample_keccak256 :: "abi_value list \<Rightarrow> bytes32" where
  "sample_keccak256 vs = length vs"

definition sample_chain0 :: chain where
  "sample_chain0 =
     \<lparr> registry =
         \<lparr> ownable_owner = Account 0, pausable_paused = False,
           serviceFee = 10, feeCollector = Account 9,
           shareConfigs = (\<lambda>_. \<lparr> cfg_totalShares = 0, cfg_threshold = 0,
             cfg_creationTime = 0, cfg_isActive = False, cfg_configHash = 0 \<rparr>),
           userShares = (\<lambda>_. []),
           recoveryAddresses = (\<lambda>_. []),
           emergencyContacts = (\<lambda>_. ZeroAddress),
           recoveryRequests = (\<lambda>_. \<lparr> req_initiator = ZeroAddress, req_requestTime = 0,
             req_expiresAt = 0, req_requestHash = 0, req_isActive = False \<rparr>),
           blacklisted = (\<lambda>_. False), feeExemptions = (\<lambda>_. False),
           lastActionTimestamp = (\<lambda>_. 0), failedAttempts = (\<lambda>_. 0) \<rparr>,
       deployed = Map.empty, created = 0 \<rparr>"

definition sample_contract :: "bytes \<Rightarrow> bool \<Rightarrow> SecureShareContract" where
  "sample_contract d active =
     \<lparr> sc_owner = Account 1, sc_registry = RegistryAddress, sc_encryptedShare = d,
       sc_isActive = active, sc_lastAccessed = 0, sc_accessCount = 0,
       sc_lastAccessByAddress = (\<lambda>_. 0) \<rparr>"

text \<open>After account 1 stored the shares [1,2,3], [4,5,6], [7,8,9] at time 1000000.\<close>

definition sample_chain1 :: chain where
  "sample_chain1 =
     \<lparr> registry = (registry sample_chain0)
         \<lparr> shareConfigs := (shareConfigs (registry sample_chain0))
             (Account 1 := \<lparr> cfg_totalShares = 3, cfg_threshold = 2,
                cfg_creationTime = 1000000, cfg_isActive = True, cfg_configHash = 5 \<rparr>),
           userShares := (userShares (registry sample_chain0))
             (Account 1 := [ShareContractAddress 0, ShareContractAddress 1, ShareContractAddress 2]),
           lastActionTimestamp := (lastActionTimestamp (registry sample_chain0))
             (Account 1 := 1000000) \<rparr>,
       deployed = [ShareContractAddress 0 \<mapsto> sample_contract [1, 2, 3] True,
                   ShareContractAddress 1 \<mapsto> sample_contract [4, 5, 6] True,
                   ShareContractAddress 2 \<mapsto> sample_contract [7, 8, 9] True],
       created = 3 \<rparr>"

text \<open>After account 1 added account 2 as a recovery address at time 1000300.\<close>

definition sample_chain2 :: chain where
  "sample_chain2 =
     sample_chain1\<lparr> registry := (registry sample_chain1)
       \<lparr> recoveryAddresses := (recoveryAddresses (registry sample_chain1))
           (Account 1 := [Account 2]),
         lastActionTimestamp := (lastActionTimestamp (registry sample_chain1))
           (Account 1 := 1000300) \<rparr> \<rparr>"

text \<open>After account 2 initiated a recovery for account 1 at time 1000600.\<close>

definition sample_chain3 :: chain where
  "sample_chain3 =
     sample_chain2\<lparr> registry := (registry sample_chain2)
       \<lparr> recoveryRequests := (recoveryRequests (registry sample_chain2))
           (Account 1 := \<lparr> req_initiator = Account 2, req_requestTime = 1000600,
              req_expiresAt = 1173400, req_requestHash = 5, req_isActive = True \<rparr>),
         lastActionTimestamp := (lastActionTimestamp (registry sample_chain2))
           (Account 2 := 1000600) \<rparr> \<rparr>"

text \<open>After account 1, in the state with the recovery address, revoked at time 1000900.\<close>

definition sample_chain4 :: chain where
  "sample_chain4 =
     sample_chain2\<lparr> registry := (registry sample_chain2)
       \<lparr> shareConfigs := (shareConfigs (registry sample_chain2))
           (Account 1 := \<lparr> cfg_totalShares = 3, cfg_threshold = 2,
              cfg_creationTime = 1000000, cfg_isActive = False, cfg_configHash = 5 \<rparr>),
         lastActionTimestamp := (lastActionTimestamp (registry sample_chain2))
           (Account 1 := 1000900) \<rparr>,
       deployed := [ShareContractAddress 0 \<mapsto> sample_contract [1, 2, 3] False,
                    ShareContractAddress 1 \<mapsto> sample_contract [4, 5, 6] False,
                    ShareContractAddress 2 \<mapsto> sample_contract [7, 8, 9] False] \<rparr>"

text \<open>After account 1 stored the new shares [10], [11], [12] at time 1001200.\<close>

definition sample_chain5 :: chain where
  "sample_chain5 =
     \<lparr> registry = (registry sample_chain4)
         \<lparr> shareConfigs := (shareConfigs (registry sample_chain4))
             (Account 1 := \<lparr> cfg_totalShares = 3, cfg_threshold = 2,
                cfg_creationTime = 1001200, cfg_isActive = True, cfg_configHash = 5 \<rparr>),
           userShares := (userShares (registry sample_chain4))
             (Account 1 := [ShareContractAddress 0, ShareContractAddress 1, ShareContractAddress 2,
                            ShareContractAddress 3, ShareContractAddress 4, ShareContractAddress 5]),
           lastActionTimestamp := (lastActionTimestamp (registry sample_chain4))
             (Account 1 := 1001200) \<rparr>,
       deployed = [ShareContractAddress 0 \<mapsto> sample_contract [1, 2, 3] False,
                   ShareContractAddress 1 \<mapsto> sample_contract [4, 5, 6] False,
                   ShareContractAddress 2 \<mapsto> sample_contract [7, 8, 9] False,
                   ShareContractAddress 3 \<mapsto> sample_contract [10] True,
                   ShareContractAddress 4 \<mapsto> sample_contract [11] True,
                   ShareContractAddress 5 \<mapsto> sample_contract [12] True],
       created = 6 \<rparr>"

section \<open>The encryption of shares\<close>

text \<open>
  JSON values as \<^verbatim>\<open>JSON.parse\<close> returns them; an object is the list of its properties in
  insertion order.
\<close>

datatype json =
    JNull
  | JBool bool
  | JNumber int
  | JString string
  | JArray "json list"
  | JObject "(string \<times> json) list"

text \<open>
  The functions of the platform and of the cryptographic libraries that the services
  call are parameters: \<^verbatim>\<open>JSON.stringify\<close> and \<^verbatim>\<open>JSON.parse\<close>, \<^verbatim>\<open>sha256\<close>, the
  functions \<^verbatim>\<open>getPublicKey(key, false)\<close> and \<^verbatim>\<open>getSharedSecret\<close> of secp256k1, and
  AES-GCM encryption with a 128-bit tag (it returns the ciphertext followed by the tag;
  \<^verbatim>\<open>importKey\<close> takes the 32 bytes of the hash as the key).
\<close>

record primitives =
  json_stringify :: "json \<Rightarrow> string"
  json_parse :: "string \<Rightarrow> js_error + json"
  sha256 :: "bytes \<Rightarrow> bytes"
  getPublicKey :: "bytes \<Rightarrow> js_error + bytes"
  getSharedSecret :: "bytes \<Rightarrow> bytes \<Rightarrow> js_error + bytes"
  aes_gcm_encrypt :: "bytes \<Rightarrow> bytes \<Rightarrow> bytes \<Rightarrow> bytes"

subsection \<open>Strings and byte arrays\<close>

text \<open>
  \<^verbatim>\<open>s.substring(start, end)\<close> clamps both indices to the string and swaps them when
  the first is larger; \<^verbatim>\<open>a.slice(begin, end)\<close> counts a negative index from the end.
\<close>

definition js_substring :: "string \<Rightarrow> int \<Rightarrow> int \<Rightarrow> string" where
  "js_substring s start end' =
     (let len = int (length s);
          a = max 0 (min start len);
          b = max 0 (min end' len);
          lo = min a b; hi = max a b
      in take (nat (hi - lo)) (drop (nat lo) s))"

definition js_slice :: "'a list \<Rightarrow> int \<Rightarrow> int \<Rightarrow> 'a list" where
  "js_slice xs begin' end' =
     (let len = int (length xs);
          k = (if begin' < 0 then max (len + begin') 0 else min begin' len);
          final = (if end' < 0 then max (len + end') 0 else min end' len)
      in take (nat (max (final - k) 0)) (drop (nat k) xs))"

definition startsWith :: "string \<Rightarrow> string \<Rightarrow> bool" where
  "startsWith s p = (take (length p) s = p)"

definition byteToHex :: "byte \<Rightarrow> string" where
  "byteToHex b = [hex_digit (uint b div 16), hex_digit (uint b mod 16)]"

definition bytesToHex :: "bytes \<Rightarrow> string" where
  "bytesToHex bs = concat (map byteToHex bs)"

subsection \<open>EccService\<close>

record encrypted_data =
  enc_iv :: string
  enc_ephemPublicKey :: string
  enc_ciphertext :: string
  enc_mac :: string

record key_pair =
  kp_privateKey :: string
  kp_publicKey :: string

text \<open>\<^verbatim>\<open>EccService.importFromPrivateKey\<close>: the key pair of a private key.\<close>

definition EccService_importFromPrivateKey :: "primitives \<Rightarrow> string \<Rightarrow> js_error + key_pair" where
  "EccService_importFromPrivateKey P privateKeyHex =
     (case hexToBytes privateKeyHex of
        Inl e \<Rightarrow> Inl e
      | Inr privateKey \<Rightarrow>
     (case getPublicKey P privateKey of
        Inl e \<Rightarrow> Inl e
      | Inr publicKey \<Rightarrow>
          Inr \<lparr> kp_privateKey = privateKeyHex, kp_publicKey = bytesToHex publicKey \<rparr>))"

text \<open>
  \<^verbatim>\<open>EccService.encrypt\<close>. The ephemeral private key and the 16 bytes of the IV are
  random; they are the arguments \<open>ephemeralPrivateKey\<close> and \<open>iv\<close>.
\<close>

definition EccService_encrypt ::
  "primitives \<Rightarrow> bytes \<Rightarrow> bytes \<Rightarrow> string \<Rightarrow> string \<Rightarrow> js_error + encrypted_data" where
  "EccService_encrypt P ephemeralPrivateKey iv publicKeyHex message =
     (case hexToBytes publicKeyHex of
        Inl e \<Rightarrow> Inl e
      | Inr publicKey \<Rightarrow>
     (let messageBytes = utf8ToBytes message
      in case getPublicKey P ephemeralPrivateKey of
        Inl e \<Rightarrow> Inl e
      | Inr ephemeralPublicKey \<Rightarrow>
     (case getSharedSecret P ephemeralPrivateKey publicKey of
        Inl e \<Rightarrow> Inl e
      | Inr sharedPoint \<Rightarrow>
          (let sharedSecret = sha256 P (js_slice sharedPoint 1 33);
               encryptedArray = aes_gcm_encrypt P sharedSecret iv messageBytes;
               ciphertextLength = int (length encryptedArray) - 16;
               ciphertext = js_slice encryptedArray 0 ciphertextLength;
               mac = js_slice encryptedArray ciphertextLength (int (length encryptedArray))
           in Inr \<lparr> enc_iv = bytesToHex iv,
                      enc_ephemPublicKey = bytesToHex ephemeralPublicKey,
                      enc_ciphertext = bytesToHex ciphertext,
                      enc_mac = bytesToHex mac \<rparr>))))"

text \<open>
  \<^verbatim>\<open>EccService.decrypt\<close>. Its \<^verbatim>\<open>try\<close> block declares \<^verbatim>\<open>const encryptedData\<close> (the
  concatenation of ciphertext and tag) further down, and that declaration covers the
  whole block: inside the block the name is this constant, not the parameter, and it is
  not initialised before its declaration. The first statement converts the private key;
  the second reads \<^verbatim>\<open>encryptedData.iv\<close> and throws the ReferenceError, which the
  \<^verbatim>\<open>catch\<close> block rethrows. The statements after it (the other conversions, the key
  agreement, the AES-GCM decryption) are never reached. The message is the one of V8.
\<close>

definition EccService_decrypt :: "primitives \<Rightarrow> string \<Rightarrow> encrypted_data \<Rightarrow> js_error + string" where
  "EccService_decrypt P privateKeyHex encryptedData =
     (case hexToBytes privateKeyHex of
        Inl e \<Rightarrow> Inl e
      | Inr privateKey \<Rightarrow>
          Inl (Error ''Cannot access 'encryptedData' before initialization''))"

definition formatForContract :: "encrypted_data \<Rightarrow> string" where
  "formatForContract encryptedData =
     (let combinedHex = enc_iv encryptedData @ enc_ephemPublicKey encryptedData
            @ enc_ciphertext encryptedData @ enc_mac encryptedData
      in ''0x'' @ combinedHex)"

definition parseFromContract :: "string \<Rightarrow> encrypted_data" where
  "parseFromContract hexString =
     (let hex = (if startsWith hexString ''0x''
                 then js_substring hexString 2 (int (length hexString)) else hexString);
          IV_SIZE = 16 * 2;
          EPHEM_KEY_SIZE = 65 * 2;
          MAC_SIZE = 16 * 2;
          iv = js_substring hex 0 IV_SIZE;
          ephemPublicKey = js_substring hex IV_SIZE (IV_SIZE + EPHEM_KEY_SIZE);
          macStart = int (length hex) - MAC_SIZE;
          ciphertext = js_substring hex (IV_SIZE + EPHEM_KEY_SIZE) macStart;
          mac = js_substring hex macStart (int (length hex))
      in \<lparr> enc_iv = iv, enc_ephemPublicKey = ephemPublicKey,
           enc_ciphertext = ciphertext, enc_mac = mac \<rparr>)"

subsection \<open>ProductionShamirService: encryptShare and decryptShare\<close>

text \<open>The object \<^verbatim>\<open>{ x, y }\<close> of a share, and the lookup of a property.\<close>

definition share_to_json :: "share \<Rightarrow> json" where
  "share_to_json s = JObject [(''x'', JNumber (share_x s)), (''y'', JString (share_y s))]"

definition property :: "(string \<times> json) list \<Rightarrow> string \<Rightarrow> json option" where
  "property props name = map_of props name"

text \<open>
  \<^verbatim>\<open>_computeShareChecksum\<close> on an object: \<^verbatim>\<open>JSON.stringify({x: share.x, y: share.y})\<close>
  leaves out a property that is undefined.
\<close>

definition computeShareChecksum :: "primitives \<Rightarrow> (string \<times> json) list \<Rightarrow> string" where
  "computeShareChecksum P share =
     (let shareString = json_stringify P (JObject
            ((case property share ''x'' of None \<Rightarrow> [] | Some v \<Rightarrow> [(''x'', v)])
             @ (case property share ''y'' of None \<Rightarrow> [] | Some v \<Rightarrow> [(''y'', v)])))
      in bytesToHex (sha256 P (utf8ToBytes shareString)))"

text \<open>
  \<^verbatim>\<open>encryptShare\<close> for a share \<^verbatim>\<open>{ x, y }\<close>; \<open>now\<close> is \<^verbatim>\<open>Date.now()\<close>. \<open>enrichShare\<close>
  builds the object \<^verbatim>\<open>enrichedShare\<close>: the share with the property \<^verbatim>\<open>metadata\<close> added.
\<close>

definition enrichShare :: "primitives \<Rightarrow> int \<Rightarrow> share \<Rightarrow> json" where
  "enrichShare P now s =
     (let share = [(''x'', JNumber (share_x s)), (''y'', JString (share_y s))]
      in JObject (share @
           [(''metadata'', JObject [(''timestamp'', JNumber now),
                                    (''checksum'', JString (computeShareChecksum P share))])]))"

definition encryptShare ::
  "primitives \<Rightarrow> int \<Rightarrow> bytes \<Rightarrow> bytes \<Rightarrow> string \<Rightarrow> share \<Rightarrow> js_error + string" where
  "encryptShare P now ephemeralPrivateKey iv publicKeyHex s =
     (let shareStr = json_stringify P (enrichShare P now s)
      in case EccService_encrypt P ephemeralPrivateKey iv publicKeyHex shareStr of
           Inl (Error message) \<Rightarrow> Inl (Error (''Share encryption failed: '' @ message))
         | Inr encrypted \<Rightarrow> Inr (formatForContract encrypted))"

text \<open>The truth value of a JSON value in \<^verbatim>\<open>if (metadata)\<close>.\<close>

fun truthy :: "json \<Rightarrow> bool" where
  "truthy JNull = False"
| "truthy (JBool b) = b"
| "truthy (JNumber n) = (n \<noteq> 0)"
| "truthy (JString s) = (s \<noteq> [])"
| "truthy (JArray vs) = True"
| "truthy (JObject props) = True"

text \<open>
  \<^verbatim>\<open>const { metadata, ...share } = enrichedShare\<close>: the property \<^verbatim>\<open>metadata\<close> and the
  object of the other properties. Destructuring \<^verbatim>\<open>null\<close> throws; a number or a boolean
  has no properties; an array has its indices and a string its characters as properties.
\<close>

definition destructure :: "json \<Rightarrow> js_error + (json option \<times> (string \<times> json) list)" where
  "destructure enrichedShare =
     (case enrichedShare of
        JNull \<Rightarrow> Inl (Error ''Cannot destructure null'')
      | JBool b \<Rightarrow> Inr (None, [])
      | JNumber n \<Rightarrow> Inr (None, [])
      | JString s \<Rightarrow> Inr (None, map (\<lambda>i. (BigInt_toString (int i), JString [s ! i])) [0..<length s])
      | JArray vs \<Rightarrow> Inr (None, map (\<lambda>i. (BigInt_toString (int i), vs ! i)) [0..<length vs])
      | JObject props \<Rightarrow>
          Inr (property props ''metadata'', filter (\<lambda>kv. fst kv \<noteq> ''metadata'') props))"

text \<open>\<^verbatim>\<open>metadata.checksum\<close>: only an object has the property.\<close>

definition metadata_checksum :: "json \<Rightarrow> json option" where
  "metadata_checksum metadata =
     (case metadata of JObject props \<Rightarrow> property props ''checksum'' | _ \<Rightarrow> None)"

definition decryptShare :: "primitives \<Rightarrow> string \<Rightarrow> string \<Rightarrow> js_error + json" where
  "decryptShare P privateKeyHex encryptedShareHex =
     (let encryptedData = parseFromContract encryptedShareHex
      in case EccService_decrypt P privateKeyHex encryptedData of
           Inl (Error message) \<Rightarrow> Inl (Error (''Share decryption failed: '' @ message))
         | Inr decryptedShareJson \<Rightarrow>
        (case json_parse P decryptedShareJson of
           Inl (Error message) \<Rightarrow> Inl (Error (''Share decryption failed: '' @ message))
         | Inr enrichedShare \<Rightarrow>
        (case destructure enrichedShare of
           Inl (Error message) \<Rightarrow> Inl (Error (''Share decryption failed: '' @ message))
         | Inr (metadata, share) \<Rightarrow>
             if (case metadata of None \<Rightarrow> False | Some m \<Rightarrow> truthy m)
                \<and> Some (JString (computeShareChecksum P share))
                    \<noteq> (case metadata of None \<Rightarrow> None | Some m \<Rightarrow> metadata_checksum m)
             then Inl (Error (''Share decryption failed: ''
                     @ ''Share integrity verification failed: checksum mismatch''))
             else Inr (JObject share))))"

subsection \<open>Sample primitives\<close>

text \<open>
  Stand-ins for the library functions, to run the services on concrete inputs. They are
  not cryptography: the public key repeats the private key, the shared point is the
  exclusive or of the two keys, the hash pads or cuts its input to 32 bytes, and the
  cipher appends the first 16 bytes of the key as the tag. The serialiser writes JSON
  without escaping the characters of a string, and the parser knows the two strings of
  the samples.
\<close>

fun join :: "string \<Rightarrow> string list \<Rightarrow> string" where
  "join sep [] = []"
| "join sep [s] = s"
| "join sep (s # t # ss) = s @ sep @ join sep (t # ss)"

fun sample_stringify :: "json \<Rightarrow> string" where
  "sample_stringify JNull = ''null''"
| "sample_stringify (JBool b) = (if b then ''true'' else ''false'')"
| "sample_stringify (JNumber n) = BigInt_toString n"
| "sample_stringify (JString s) = CHR 0x22 # s @ [CHR 0x22]"
| "sample_stringify (JArray vs) = ''['' @ join '','' (map sample_stringify vs) @ '']''"
| "sample_stringify (JObject props) =
     ''{'' @ join '','' (map (\<lambda>(k, v). CHR 0x22 # k @ [CHR 0x22] @ '':'' @ sample_stringify v) props)
       @ ''}''"

definition sample_share :: share where
  "sample_share = \<lparr> share_x = 2, share_y = ''31'' \<rparr>"

definition sample_primitives0 :: primitives where
  "sample_primitives0 =
     \<lparr> json_stringify = sample_stringify,
       json_parse = (\<lambda>s. Inl (Error ''Unexpected token'')),
       sha256 = (\<lambda>bs. take 32 (bs @ replicate 32 0)),
       getPublicKey = (\<lambda>sk. Inr (4 # sk @ sk)),
       getSharedSecret = (\<lambda>sk pk. Inr (4 # map2 (XOR) (sk @ sk) (drop 1 pk))),
       aes_gcm_encrypt = (\<lambda>key iv m. m @ take 16 (key @ replicate 16 0)) \<rparr>"

definition sample_primitives :: primitives where
  "sample_primitives =
     sample_primitives0\<lparr> json_parse := (\<lambda>s.
       if s = sample_stringify (enrichShare sample_primitives0 1700000000000 sample_share)
         then Inr (enrichShare sample_primitives0 1700000000000 sample_share)
       else if s = sample_stringify (share_to_json sample_share)
         then Inr (share_to_json sample_share)
       else Inl (Error ''Unexpected token'')) \<rparr>"

definition sample_ephemeralPrivateKey :: bytes where
  "sample_ephemeralPrivateKey = replicate 32 1"

definition sample_iv :: bytes where
  "sample_iv = replicate 16 7"

text \<open>The public key of the sample private key, under the sample primitives.\<close>

definition sample_publicKeyHex :: string where
  "sample_publicKeyHex = bytesToHex (4 # (replicate 31 0 @ [5]) @ (replicate 31 0 @ [5]))"

text \<open>
  The blob that \<^verbatim>\<open>encryptShare\<close> makes of the sample share for this public key at time
  1700000000000: the IV, the ephemeral public key, the ciphertext (here the bytes of the
  JSON text of the share with its metadata) and the tag.
\<close>

definition sample_encryptedShare :: string where
  "sample_encryptedShare =
     ''0x070707070707070707070707070707070401010101010101010101010101010101010101010101''
       @ ''01010101010101010101010101010101010101010101010101010101010101010101010101010101''
       @ ''01017b2278223a322c2279223a223331222c226d65746164617461223a7b2274696d657374616d70''
       @ ''223a313730303030303030303030302c22636865636b73756d223a22376232323738323233613332''
       @ ''32633232373932323361323233333331323237643030303030303030303030303030303030303030''
       @ ''303030303030303030303030227d7d01010101010101010101010101010101''"


section \<open>Reconstruction: validation\<close>

lemma validateShares_duplicate:
  assumes "\<not> distinct (map share_x shares)"
  shows "validateShares shares = Inl (Error ''Duplicate share indices detected'')"
proof -
  have "2 \<le> length shares"
  proof (rule ccontr)
    assume "\<not> 2 \<le> length shares"
    then have "length (map share_x shares) \<le> 1"
      by simp
    then have "distinct (map share_x shares)"
      by (cases "map share_x shares") auto
    with assms show False
      by simp
  qed
  moreover have "card (set (map share_x shares)) \<noteq> length (map share_x shares)"
    using assms distinct_card card_distinct by blast
  ultimately show ?thesis
    by (simp add: validateShares_def)
qed

text \<open>
  C8. A list of shares in which two entries have the same x-coordinate is refused by
  \<^verbatim>\<open>reconstructSecret\<close> with the validation error of \<^verbatim>\<open>_validateShares\<close> for duplicate
  indices, which comes before any interpolation: no value is returned.
\<close>

theorem reconstructSecret_duplicate_x_fails:
  assumes "\<not> distinct (map share_x shares)"
  shows "reconstructSecret shares
           = Inl (Error ''Secret reconstruction failed: Duplicate share indices detected'')"
  using validateShares_duplicate [OF assms]
  by (simp add: reconstructSecret_def)

theorem reconstructSecret_duplicate_x_fails_witness:
  "reconstructSecret [\<lparr>share_x = 1, share_y = ''15''\<rparr>, \<lparr>share_x = 2, share_y = ''31''\<rparr>,
                      \<lparr>share_x = 1, share_y = ''15''\<rparr>]
           = Inl (Error ''Secret reconstruction failed: Duplicate share indices detected'')"
  by (rule reconstructSecret_duplicate_x_fails) simp

section \<open>Splitting and reconstructing\<close>

lemma sample_generateShares:
  "generateShares sample_extraEntropy sample_randomBytes sample_privateKeyHex 5 3
     = Inr [\<lparr>share_x = 1, share_y = ''15''\<rparr>, \<lparr>share_x = 2, share_y = ''31''\<rparr>,
            \<lparr>share_x = 3, share_y = ''53''\<rparr>, \<lparr>share_x = 4, share_y = ''81''\<rparr>,
            \<lparr>share_x = 5, share_y = ''115''\<rparr>]"
proof -
  have v: "validateInputs sample_privateKeyHex 5 3 = Inr ()"
    by code_simp
  have h: "hexToBytes sample_privateKeyHex = Inr (replicate 31 0 @ [5])"
    by code_simp
  have s: "bytesToFieldElement (replicate 31 0 @ [5]) getPrime = 5"
    by code_simp
  have c1: "secureRandomFieldElement getPrime (sample_extraEntropy @ BigInt_toString 1)
              (sample_randomBytes 1) = 7"
    by code_simp
  have c2: "secureRandomFieldElement getPrime (sample_extraEntropy @ BigInt_toString 2)
              (sample_randomBytes 2) = 3"
    by code_simp
  have u: "[1..(3::int) - 1] = [1, 2]"
    by code_simp
  have m: "map (\<lambda>x. \<lparr> share_x = x,
                       share_y = BigInt_toString (evaluatePolynomial [5, 7, 3] x getPrime) \<rparr>) [1..5]
     = [\<lparr>share_x = 1, share_y = ''15''\<rparr>, \<lparr>share_x = 2, share_y = ''31''\<rparr>,
        \<lparr>share_x = 3, share_y = ''53''\<rparr>, \<lparr>share_x = 4, share_y = ''81''\<rparr>,
        \<lparr>share_x = 5, share_y = ''115''\<rparr>]"
    by code_simp
  show ?thesis
    unfolding generateShares_def v h Let_def u
    by (simp only: s list.map c1 c2 m sum.case)
qed

text \<open>
  C1. The sample key is split into 5 shares with threshold 3. \<^verbatim>\<open>reconstructSecret\<close> on
  the shares 1, 2, 3 returns a string that is not the key: the denominator of the
  share 2 is \<open>(2 - 1) * (2 - 3) = -1\<close>, and \<^verbatim>\<open>modInverse(-1, prime)\<close> returns 1.
\<close>

theorem reconstructSecret_of_generateShares_differs:
  "generateShares sample_extraEntropy sample_randomBytes sample_privateKeyHex 5 3
     = Inr [\<lparr>share_x = 1, share_y = ''15''\<rparr>, \<lparr>share_x = 2, share_y = ''31''\<rparr>,
            \<lparr>share_x = 3, share_y = ''53''\<rparr>, \<lparr>share_x = 4, share_y = ''81''\<rparr>,
            \<lparr>share_x = 5, share_y = ''115''\<rparr>]
   \<and> reconstructSecret [\<lparr>share_x = 1, share_y = ''15''\<rparr>, \<lparr>share_x = 2, share_y = ''31''\<rparr>,
                        \<lparr>share_x = 3, share_y = ''53''\<rparr>]
     = Inr ''00000000000000000000000000000000000000000000000000000000000000bf''
   \<and> sample_privateKeyHex \<noteq> ''00000000000000000000000000000000000000000000000000000000000000bf''
   \<and> modInverse (- 1) getPrime = 1"
proof -
  have "reconstructSecret [\<lparr>share_x = 1, share_y = ''15''\<rparr>, \<lparr>share_x = 2, share_y = ''31''\<rparr>,
                        \<lparr>share_x = 3, share_y = ''53''\<rparr>]
     = Inr ''00000000000000000000000000000000000000000000000000000000000000bf''"
    by code_simp
  moreover have "modInverse (- 1) getPrime = 1"
    by code_simp
  moreover have "sample_privateKeyHex \<noteq> ''00000000000000000000000000000000000000000000000000000000000000bf''"
    by (simp add: sample_privateKeyHex_def)
  ultimately show ?thesis
    using sample_generateShares by simp
qed

section \<open>Reconstruction below the threshold\<close>

text \<open>
  C4, as the claim states it, fails: two of the five shares of the sample split, whose
  threshold is 3, have distinct x-coordinates, and \<^verbatim>\<open>reconstructSecret\<close> returns a
  string for them (not the key).
\<close>

theorem reconstructSecret_below_threshold_returns:
  "generateShares sample_extraEntropy sample_randomBytes sample_privateKeyHex 5 3
     = Inr [\<lparr>share_x = 1, share_y = ''15''\<rparr>, \<lparr>share_x = 2, share_y = ''31''\<rparr>,
            \<lparr>share_x = 3, share_y = ''53''\<rparr>, \<lparr>share_x = 4, share_y = ''81''\<rparr>,
            \<lparr>share_x = 5, share_y = ''115''\<rparr>]
   \<and> reconstructSecret [\<lparr>share_x = 1, share_y = ''15''\<rparr>, \<lparr>share_x = 2, share_y = ''31''\<rparr>]
     = Inr ''ffffffff00000000ffffffffffffffffbce6faada7179e84f3b9cac2fc632514''"
proof -
  have "reconstructSecret [\<lparr>share_x = 1, share_y = ''15''\<rparr>, \<lparr>share_x = 2, share_y = ''31''\<rparr>]
     = Inr ''ffffffff00000000ffffffffffffffffbce6faada7179e84f3b9cac2fc632514''"
    by code_simp
  then show ?thesis
    using sample_generateShares by simp
qed

text \<open>
  C4, amended. \<^verbatim>\<open>reconstructSecret\<close> has no threshold among its inputs. With fewer
  than 2 shares it fails with the validation error of \<^verbatim>\<open>_validateShares\<close>; with 2 or
  more shares that are well formed and have pairwise-distinct x-coordinates it returns
  a value, whatever the threshold of the split was.
\<close>

theorem reconstructSecret_fewer_than_two:
  "(length shares < 2 \<longrightarrow>
      reconstructSecret shares
        = Inl (Error ''Secret reconstruction failed: At least 2 valid shares are required''))
   \<and> (2 \<le> length shares \<and> distinct (map share_x shares) \<and> list_all share_format_ok shares \<longrightarrow>
      reconstructSecret shares
        = Inr (fieldElementToHex (constantTimeLagrangeInterpolation shares 0 getPrime)))"
proof (intro conjI impI)
  assume "length shares < 2"
  then show "reconstructSecret shares
        = Inl (Error ''Secret reconstruction failed: At least 2 valid shares are required'')"
    by (simp add: reconstructSecret_def validateShares_def)
next
  assume a: "2 \<le> length shares \<and> distinct (map share_x shares) \<and> list_all share_format_ok shares"
  then have "card (set (map share_x shares)) = length shares"
    using distinct_card [of "map share_x shares"] by simp
  with a have "validateShares shares = Inr ()"
    by (simp add: validateShares_def)
  then show "reconstructSecret shares
        = Inr (fieldElementToHex (constantTimeLagrangeInterpolation shares 0 getPrime))"
    by (simp add: reconstructSecret_def)
qed

theorem reconstructSecret_fewer_than_two_witness:
  "reconstructSecret [\<lparr>share_x = 1, share_y = ''15''\<rparr>]
     = Inl (Error ''Secret reconstruction failed: At least 2 valid shares are required'')
   \<and> reconstructSecret [\<lparr>share_x = 1, share_y = ''15''\<rparr>, \<lparr>share_x = 2, share_y = ''31''\<rparr>]
     = Inr (fieldElementToHex (constantTimeLagrangeInterpolation
              [\<lparr>share_x = 1, share_y = ''15''\<rparr>, \<lparr>share_x = 2, share_y = ''31''\<rparr>] 0 getPrime))"
  using reconstructSecret_fewer_than_two [of "[\<lparr>share_x = 1, share_y = ''15''\<rparr>]"]
    reconstructSecret_fewer_than_two
      [of "[\<lparr>share_x = 1, share_y = ''15''\<rparr>, \<lparr>share_x = 2, share_y = ''31''\<rparr>]"]
  by (simp add: share_format_ok_def is_digit_def)

section \<open>The share contracts: throttling, loops and frames\<close>

lemma isRecoveryAddress_loop_set:
  "isRecoveryAddress_loop addresses recoveryAddr \<longleftrightarrow> recoveryAddr \<in> set addresses"
  by (induction addresses) auto


lemma throttleRequests_frame:
  assumes "throttleRequests reg now account = Inr reg1"
  shows "reg1 = reg \<or> reg1 = reg\<lparr> failedAttempts := (failedAttempts reg)(account := 0) \<rparr>"
  using assms
  by (auto simp: throttleRequests_def Let_def split: if_splits)

lemma throttleRequests_passes:
  assumes "account = ownable_owner reg
      \<or> (lastActionTimestamp reg account + 300 \<le> now
         \<and> (failedAttempts reg account < 5 \<or> lastActionTimestamp reg account + 3600 < now))"
  shows "\<exists>reg1. throttleRequests reg now account = Inr reg1"
  using assms
  by (auto simp: throttleRequests_def Let_def)

lemma revokeShares_loop_result:
  assumes "revokeShares_loop shares dep = Inr dep'"
  shows "dep' = (\<lambda>a. if a \<in> set shares
                      then map_option (\<lambda>c. c\<lparr> sc_isActive := False \<rparr>) (dep a)
                      else dep a)
       \<and> (\<forall>a \<in> set shares. dep a \<noteq> None)"
  using assms
proof (induction shares arbitrary: dep)
  case Nil
  then show ?case by simp
next
  case (Cons a shares)
  from Cons.prems obtain c where c: "dep a = Some c"
    by (cases "dep a") auto
  from Cons.prems c have rest:
    "revokeShares_loop shares (dep(a \<mapsto> c\<lparr> sc_isActive := False \<rparr>)) = Inr dep'"
    by (auto simp: deactivate_def split: if_splits)
  from Cons.IH [OF rest]
  have A: "dep' = (\<lambda>x. if x \<in> set shares
                      then map_option (\<lambda>c. c\<lparr> sc_isActive := False \<rparr>)
                             ((dep(a \<mapsto> c\<lparr> sc_isActive := False \<rparr>)) x)
                      else (dep(a \<mapsto> c\<lparr> sc_isActive := False \<rparr>)) x)"
    and B: "\<forall>x \<in> set shares. (dep(a \<mapsto> c\<lparr> sc_isActive := False \<rparr>)) x \<noteq> None"
    by blast+
  have "dep' = (\<lambda>x. if x \<in> set (a # shares)
                      then map_option (\<lambda>c. c\<lparr> sc_isActive := False \<rparr>) (dep x)
                      else dep x)"
    unfolding A using c by (auto simp: fun_eq_iff)
  moreover have "\<forall>x \<in> set (a # shares). dep x \<noteq> None"
  proof
    fix x assume "x \<in> set (a # shares)"
    then show "dep x \<noteq> None"
      using B c by (cases "x = a") auto
  qed
  ultimately show ?case by blast
qed

lemma storeShares_loop_frame:
  assumes "storeShares_loop sender encryptedShareData shareContracts ch = Inr (shareContracts', ch')"
  shows "registry ch' = (registry ch)\<lparr> userShares := userShares (registry ch') \<rparr>"
  using assms
proof (induction encryptedShareData arbitrary: shareContracts ch)
  case Nil
  then show ?case by simp
next
  case (Cons d ds)
  then show ?case
    by (fastforce simp: Let_def split: if_splits sum.splits)
qed

lemma storeShares_loop_succeeds:
  assumes "sender \<noteq> ZeroAddress" and "\<forall>d \<in> set encryptedShareData. d \<noteq> []"
  shows "\<exists>r. storeShares_loop sender encryptedShareData shareContracts ch = Inr r"
  using assms
proof (induction encryptedShareData arbitrary: shareContracts ch)
  case Nil
  then show ?case by simp
next
  case (Cons d ds)
  then show ?case
    by (simp add: Let_def SecureShareContract_constructor_def)
qed

lemma storeShares_frame:
  assumes "storeShares keccak256 ok tx encryptedShareData threshold ch = Inr (cs, ch')"
  shows "recoveryAddresses (registry ch') = recoveryAddresses (registry ch)
       \<and> emergencyContacts (registry ch') = emergencyContacts (registry ch)
       \<and> recoveryRequests (registry ch') = recoveryRequests (registry ch)"
proof -
  from assms obtain reg1 ch1 where
    t: "throttleRequests (registry ch) (block_timestamp tx) (msg_sender tx) = Inr reg1"
    and l: "storeShares_loop (msg_sender tx) encryptedShareData [] (ch\<lparr> registry := reg1 \<rparr>) = Inr (cs, ch1)"
    and r: "registry ch' = (registry ch1)\<lparr>
        shareConfigs := shareConfigs (registry ch'),
        lastActionTimestamp := lastActionTimestamp (registry ch') \<rparr>"
    by (auto simp: storeShares_def Let_def checkBlacklist_def split: if_splits sum.splits)
  from storeShares_loop_frame [OF l]
  have "registry ch1 = reg1\<lparr> userShares := userShares (registry ch1) \<rparr>"
    by simp
  with r have "recoveryAddresses (registry ch') = recoveryAddresses reg1
       \<and> emergencyContacts (registry ch') = emergencyContacts reg1
       \<and> recoveryRequests (registry ch') = recoveryRequests reg1"
    by (metis SecureShareRegistry.select_convs SecureShareRegistry.surjective
          SecureShareRegistry.update_convs)
  with throttleRequests_frame [OF t] show ?thesis
    by auto
qed

lemma storeShares_loop_userShares_length:
  assumes "storeShares_loop sender encryptedShareData shareContracts ch = Inr (shareContracts', ch')"
  shows "length shareContracts' = length shareContracts + length encryptedShareData"
  using assms
proof (induction encryptedShareData arbitrary: shareContracts ch)
  case Nil
  then show ?case by simp
next
  case (Cons d ds)
  then show ?case
    by (fastforce simp: Let_def split: if_splits sum.splits)
qed

lemma storeShares_accepts:
  assumes sender: "msg_sender tx \<noteq> ZeroAddress"
    and paused: "\<not> pausable_paused (registry ch)"
    and black: "\<not> blacklisted (registry ch) (msg_sender tx)"
    and throttle: "msg_sender tx = ownable_owner (registry ch)
      \<or> (lastActionTimestamp (registry ch) (msg_sender tx) + 300 \<le> block_timestamp tx
         \<and> (failedAttempts (registry ch) (msg_sender tx) < 5
            \<or> lastActionTimestamp (registry ch) (msg_sender tx) + 3600 < block_timestamp tx))"
    and fee: "feeExemptions (registry ch) (msg_sender tx) \<or> serviceFee (registry ch) \<le> msg_value tx"
    and call: "msg_value tx = 0 \<or> ok"
    and params: "0 < threshold" "threshold \<le> length encryptedShareData"
      "3 \<le> length encryptedShareData" "length encryptedShareData \<le> 100"
    and data: "\<forall>d \<in> set encryptedShareData. d \<noteq> []"
    and fresh: "\<not> hasShares (registry ch) (msg_sender tx)"
  shows "\<exists>cs ch'. storeShares keccak256 ok tx encryptedShareData threshold ch = Inr (cs, ch')
           \<and> hasShares (registry ch') (msg_sender tx)
           \<and> cfg_totalShares (shareConfigs (registry ch') (msg_sender tx)) = length encryptedShareData
           \<and> cfg_threshold (shareConfigs (registry ch') (msg_sender tx)) = threshold"
proof -
  from throttleRequests_passes [OF throttle] obtain reg1 where
    t: "throttleRequests (registry ch) (block_timestamp tx) (msg_sender tx) = Inr reg1"
    by blast
  from throttleRequests_frame [OF t]
  have same: "feeExemptions reg1 = feeExemptions (registry ch)"
    "serviceFee reg1 = serviceFee (registry ch)"
    "shareConfigs reg1 = shareConfigs (registry ch)"
    by auto
  from storeShares_loop_succeeds [OF sender data] obtain cs ch1 where
    l: "storeShares_loop (msg_sender tx) encryptedShareData [] (ch\<lparr> registry := reg1 \<rparr>) = Inr (cs, ch1)"
    by (metis surj_pair)
  have f: "\<not> (\<not> feeExemptions reg1 (msg_sender tx) \<and> \<not> msg_value tx \<ge> serviceFee reg1)"
    using fee same by auto
  have h: "\<not> hasShares reg1 (msg_sender tx)"
    using fresh same by (simp add: hasShares_def)
  have c: "\<not> (msg_value tx > 0 \<and> \<not> ok)"
    using call by auto
  show ?thesis
    using paused black t f params h l c
    by (auto simp: storeShares_def Let_def checkBlacklist_def hasShares_def)
qed

section \<open>The sample run\<close>

lemma fun_upd_eq_same: "(f(a := x) = f(a := y)) = (x = y)"
  by (metis fun_upd_same)

lemma small_nat:
  "(2::nat) = Suc (Suc 0)" "(3::nat) = Suc (Suc (Suc 0))" "(4::nat) = Suc (Suc (Suc (Suc 0)))"
  "(5::nat) = Suc (Suc (Suc (Suc (Suc 0))))" "(6::nat) = Suc (Suc (Suc (Suc (Suc (Suc 0)))))"
  by simp_all

lemmas sample_defs =
  sample_keccak256_def sample_chain0_def sample_chain1_def sample_chain2_def sample_chain3_def
  sample_chain4_def sample_chain5_def sample_contract_def

lemmas run_simps =
  checkBlacklist_def throttleRequests_def hasShares_def SecureShareContract_constructor_def
  isRecoveryAddress_def deactivate_def uint256_limit_def Let_def fun_upd_idem_iff
  fun_upd_eq_same small_nat

lemma sample_constructor:
  "SecureShareRegistry_constructor (Account 0) 10 (Account 9) = Inr sample_chain0"
  by (simp add: SecureShareRegistry_constructor_def sample_chain0_def)

lemma sample_store:
  "storeShares sample_keccak256 True
     \<lparr> msg_sender = Account 1, msg_value = 10, block_timestamp = 1000000 \<rparr>
     [[1, 2, 3], [4, 5, 6], [7, 8, 9]] 2 sample_chain0
   = Inr ([ShareContractAddress 0, ShareContractAddress 1, ShareContractAddress 2], sample_chain1)"
  by (simp add: storeShares_def sample_defs run_simps)

lemma sample_addRecoveryAddress:
  "addRecoveryAddress \<lparr> msg_sender = Account 1, msg_value = 0, block_timestamp = 1000300 \<rparr>
     (Account 2) sample_chain1
   = Inr sample_chain2"
  by (simp add: addRecoveryAddress_def sample_defs run_simps)

lemma sample_initiateRecovery:
  "initiateRecovery sample_keccak256
     \<lparr> msg_sender = Account 2, msg_value = 0, block_timestamp = 1000600 \<rparr> (Account 1) sample_chain2
   = Inr sample_chain3"
  by (simp add: initiateRecovery_def sample_defs run_simps)

lemma sample_revoke:
  "revokeShares \<lparr> msg_sender = Account 1, msg_value = 0, block_timestamp = 1000900 \<rparr> sample_chain2
   = Inr sample_chain4"
  by (simp add: revokeShares_def sample_defs run_simps)

lemma sample_store_again:
  "storeShares sample_keccak256 True
     \<lparr> msg_sender = Account 1, msg_value = 10, block_timestamp = 1001200 \<rparr>
     [[10], [11], [12]] 2 sample_chain4
   = Inr ([ShareContractAddress 3, ShareContractAddress 4, ShareContractAddress 5], sample_chain5)"
  by (simp add: storeShares_def sample_defs run_simps)


section \<open>Authorization and the recovery time lock\<close>

lemma isAuthorizedForShare_cases:
  "isAuthorizedForShare reg now owner' accessor \<longleftrightarrow>
     accessor = owner'
     \<or> accessor \<in> set (recoveryAddresses reg owner')
     \<or> accessor = emergencyContacts reg owner'
     \<or> (req_isActive (recoveryRequests reg owner')
        \<and> req_initiator (recoveryRequests reg owner') = accessor
        \<and> req_expiresAt (recoveryRequests reg owner') \<le> now)"
  by (auto simp: isAuthorizedForShare_def isRecoveryAddress_def isRecoveryAddress_loop_set Let_def)

lemma initiateRecovery_request:
  assumes "initiateRecovery keccak256 tx user ch = Inr ch'"
  shows "req_isActive (recoveryRequests (registry ch') user)
       \<and> req_initiator (recoveryRequests (registry ch') user) = msg_sender tx
       \<and> req_requestTime (recoveryRequests (registry ch') user) = block_timestamp tx
       \<and> req_expiresAt (recoveryRequests (registry ch') user) = block_timestamp tx + 172800
       \<and> recoveryAddresses (registry ch') = recoveryAddresses (registry ch)
       \<and> emergencyContacts (registry ch') = emergencyContacts (registry ch)
       \<and> (msg_sender tx = emergencyContacts (registry ch) user
            \<or> msg_sender tx \<in> set (recoveryAddresses (registry ch) user))"
  using assms
  by (auto simp: initiateRecovery_def Let_def isRecoveryAddress_def isRecoveryAddress_loop_set
        split: if_splits sum.splits dest!: throttleRequests_frame)

lemma initiator_authorized_at_once:
  assumes "initiateRecovery keccak256 tx user ch = Inr ch'"
  shows "isAuthorizedForShare (registry ch') t user (msg_sender tx)"
  using initiateRecovery_request [OF assms] by (auto simp: isAuthorizedForShare_cases)

text \<open>
  C2. The claim: \<^verbatim>\<open>isAuthorizedForShare(owner, accessor)\<close> is true exactly when the
  accessor is the owner, a registered recovery address of the owner, the owner's
  emergency contact, or the initiator of an active recovery request of the owner whose
  48-hour time lock has elapsed; in particular a recovery initiator is never authorized
  before the lock elapses. The code departs from the second half. \<^verbatim>\<open>initiateRecovery\<close>
  admits only a recovery address or the emergency contact of the owner, and
  \<^verbatim>\<open>isAuthorizedForShare\<close> accepts these two before it looks at the request: the
  time lock that \<^verbatim>\<open>initiateRecovery\<close> sets delays nobody who can set it. In the sample
  run account 2, a recovery address of account 1, initiates a recovery at time 1000600.
  The request is active, account 2 is its initiator and the lock expires at 1173400; at
  time 1000600 already account 2 is authorized, and the share contract 0 of account 1
  gives it the share.
\<close>

theorem initiator_authorized_before_lock_elapses:
  "initiateRecovery sample_keccak256
     \<lparr> msg_sender = Account 2, msg_value = 0, block_timestamp = 1000600 \<rparr> (Account 1) sample_chain2
     = Inr sample_chain3
   \<and> req_isActive (recoveryRequests (registry sample_chain3) (Account 1))
   \<and> req_initiator (recoveryRequests (registry sample_chain3) (Account 1)) = Account 2
   \<and> req_expiresAt (recoveryRequests (registry sample_chain3) (Account 1)) = 1173400
   \<and> isAuthorizedForShare (registry sample_chain3) 1000600 (Account 1) (Account 2)
   \<and> deployed sample_chain3 (ShareContractAddress 0) = Some (sample_contract [1, 2, 3] True)
   \<and> SecureShareContract_getShare (registry sample_chain3)
        \<lparr> msg_sender = Account 2, msg_value = 0, block_timestamp = 1000600 \<rparr>
        (sample_contract [1, 2, 3] True)
      = Inr ([1, 2, 3], (sample_contract [1, 2, 3] True)
               \<lparr> sc_lastAccessed := 1000600,
                 sc_lastAccessByAddress := (\<lambda>_. 0)(Account 2 := 1000600),
                 sc_accessCount := 1 \<rparr>)"
proof -
  have "SecureShareContract_getShare (registry sample_chain3)
        \<lparr> msg_sender = Account 2, msg_value = 0, block_timestamp = 1000600 \<rparr>
        (sample_contract [1, 2, 3] True)
      = Inr ([1, 2, 3], (sample_contract [1, 2, 3] True)
               \<lparr> sc_lastAccessed := 1000600,
                 sc_lastAccessByAddress := (\<lambda>_. 0)(Account 2 := 1000600),
                 sc_accessCount := 1 \<rparr>)"
    by (simp add: SecureShareContract_getShare_def isAuthorizedForShare_def sample_defs run_simps)
  moreover have "isAuthorizedForShare (registry sample_chain3) 1000600 (Account 1) (Account 2)"
    by (simp add: isAuthorizedForShare_def sample_defs run_simps)
  moreover have "deployed sample_chain3 (ShareContractAddress 0) = Some (sample_contract [1, 2, 3] True)"
    by (simp add: sample_defs)
  moreover have "req_isActive (recoveryRequests (registry sample_chain3) (Account 1))
   \<and> req_initiator (recoveryRequests (registry sample_chain3) (Account 1)) = Account 2
   \<and> req_expiresAt (recoveryRequests (registry sample_chain3) (Account 1)) = 1173400"
    by (simp add: sample_defs)
  ultimately show ?thesis
    using sample_initiateRecovery by simp
qed


section \<open>Revocation\<close>

lemma revokeShares_result:
  assumes "revokeShares tx ch = Inr ch'"
  shows "hasShares (registry ch) (msg_sender tx)"
    and "registry ch' = (registry ch)\<lparr>
           shareConfigs := (shareConfigs (registry ch))
             (msg_sender tx := (shareConfigs (registry ch) (msg_sender tx))\<lparr> cfg_isActive := False \<rparr>),
           lastActionTimestamp :=
             (lastActionTimestamp (registry ch))(msg_sender tx := block_timestamp tx) \<rparr>"
    and "deployed ch' = (\<lambda>a. if a \<in> set (userShares (registry ch) (msg_sender tx))
                            then map_option (\<lambda>c. c\<lparr> sc_isActive := False \<rparr>) (deployed ch a)
                            else deployed ch a)"
    and "\<forall>a \<in> set (userShares (registry ch) (msg_sender tx)). deployed ch a \<noteq> None"
    and "created ch' = created ch"
proof -
  from assms show h: "hasShares (registry ch) (msg_sender tx)"
    by (auto simp: revokeShares_def Let_def split: if_splits)
  from assms h obtain dep where
    l: "revokeShares_loop (userShares (registry ch) (msg_sender tx)) (deployed ch) = Inr dep"
    and c: "ch' = ch\<lparr> deployed := dep,
         registry := (registry ch)\<lparr>
           shareConfigs := (shareConfigs (registry ch))
             (msg_sender tx := (shareConfigs (registry ch) (msg_sender tx))\<lparr> cfg_isActive := False \<rparr>),
           lastActionTimestamp :=
             (lastActionTimestamp (registry ch))(msg_sender tx := block_timestamp tx) \<rparr> \<rparr>"
    by (auto simp: revokeShares_def Let_def split: sum.splits)
  from c show "registry ch' = (registry ch)\<lparr>
           shareConfigs := (shareConfigs (registry ch))
             (msg_sender tx := (shareConfigs (registry ch) (msg_sender tx))\<lparr> cfg_isActive := False \<rparr>),
           lastActionTimestamp :=
             (lastActionTimestamp (registry ch))(msg_sender tx := block_timestamp tx) \<rparr>"
    by simp
  from c show "created ch' = created ch"
    by simp
  from c have "deployed ch' = dep"
    by simp
  with revokeShares_loop_result [OF l]
  show "deployed ch' = (\<lambda>a. if a \<in> set (userShares (registry ch) (msg_sender tx))
                            then map_option (\<lambda>c. c\<lparr> sc_isActive := False \<rparr>) (deployed ch a)
                            else deployed ch a)"
    and "\<forall>a \<in> set (userShares (registry ch) (msg_sender tx)). deployed ch a \<noteq> None"
    by simp_all
qed

text \<open>
  C10. A successful \<^verbatim>\<open>revokeShares\<close> changes the active flag of the share contracts of
  the caller, the active flag of the caller's configuration and the caller's last-action
  time, and nothing else: in particular the recovery addresses, the emergency contacts
  and the recovery requests are the same, and a later successful \<^verbatim>\<open>storeShares\<close> leaves
  them the same again.
\<close>

theorem revokeShares_frame:
  assumes "revokeShares tx ch = Inr ch'"
  shows "registry ch' = (registry ch)\<lparr>
           shareConfigs := (shareConfigs (registry ch))
             (msg_sender tx := (shareConfigs (registry ch) (msg_sender tx))\<lparr> cfg_isActive := False \<rparr>),
           lastActionTimestamp :=
             (lastActionTimestamp (registry ch))(msg_sender tx := block_timestamp tx) \<rparr>
       \<and> deployed ch' = (\<lambda>a. if a \<in> set (userShares (registry ch) (msg_sender tx))
                            then map_option (\<lambda>c. c\<lparr> sc_isActive := False \<rparr>) (deployed ch a)
                            else deployed ch a)
       \<and> created ch' = created ch
       \<and> recoveryAddresses (registry ch') = recoveryAddresses (registry ch)
       \<and> emergencyContacts (registry ch') = emergencyContacts (registry ch)
       \<and> recoveryRequests (registry ch') = recoveryRequests (registry ch)
       \<and> (\<forall>keccak256 ok tx2 encryptedShareData threshold cs ch''.
            storeShares keccak256 ok tx2 encryptedShareData threshold ch' = Inr (cs, ch'') \<longrightarrow>
              recoveryAddresses (registry ch'') = recoveryAddresses (registry ch)
              \<and> emergencyContacts (registry ch'') = emergencyContacts (registry ch)
              \<and> recoveryRequests (registry ch'') = recoveryRequests (registry ch))"
proof -
  note r = revokeShares_result [OF assms]
  have same: "recoveryAddresses (registry ch') = recoveryAddresses (registry ch)
       \<and> emergencyContacts (registry ch') = emergencyContacts (registry ch)
       \<and> recoveryRequests (registry ch') = recoveryRequests (registry ch)"
    by (simp add: r(2))
  have later: "\<forall>keccak256 ok tx2 encryptedShareData threshold cs ch''.
            storeShares keccak256 ok tx2 encryptedShareData threshold ch' = Inr (cs, ch'') \<longrightarrow>
              recoveryAddresses (registry ch'') = recoveryAddresses (registry ch)
              \<and> emergencyContacts (registry ch'') = emergencyContacts (registry ch)
              \<and> recoveryRequests (registry ch'') = recoveryRequests (registry ch)"
    using storeShares_frame same by metis
  from r(2) r(3) r(5) same later show ?thesis
    by blast
qed

theorem revokeShares_frame_witness:
  "recoveryAddresses (registry sample_chain4) (Account 1) = [Account 2]
   \<and> recoveryAddresses (registry sample_chain4) = recoveryAddresses (registry sample_chain2)
   \<and> emergencyContacts (registry sample_chain4) = emergencyContacts (registry sample_chain2)
   \<and> recoveryRequests (registry sample_chain4) = recoveryRequests (registry sample_chain2)
   \<and> recoveryAddresses (registry sample_chain5) = recoveryAddresses (registry sample_chain2)
   \<and> emergencyContacts (registry sample_chain5) = emergencyContacts (registry sample_chain2)
   \<and> recoveryRequests (registry sample_chain5) = recoveryRequests (registry sample_chain2)"
proof -
  have "recoveryAddresses (registry sample_chain4) (Account 1) = [Account 2]"
    by (simp add: sample_defs)
  then show ?thesis
    using revokeShares_frame [OF sample_revoke] sample_store_again by blast
qed

text \<open>
  C6, as the claim states it, fails: not every subsequent \<^verbatim>\<open>storeShares\<close> of the
  owner is accepted. \<^verbatim>\<open>revokeShares\<close> records its time as the last action of the
  caller, and \<^verbatim>\<open>storeShares\<close> calls \<^verbatim>\<open>_throttleRequests\<close>, which refuses a caller
  other than the owner of the registry contract within 300 seconds
  (\<^verbatim>\<open>THROTTLE_DURATION\<close>) of its last action. In the sample run account 1 revokes at
  time 1000900; its \<^verbatim>\<open>storeShares\<close> at time 1001000, with the fee paid, three shares and
  threshold 2, reverts.
\<close>

theorem storeShares_soon_after_revokeShares_reverts:
  "revokeShares \<lparr> msg_sender = Account 1, msg_value = 0, block_timestamp = 1000900 \<rparr> sample_chain2
     = Inr sample_chain4
   \<and> hasShares (registry sample_chain4) (Account 1) = False
   \<and> storeShares sample_keccak256 True
        \<lparr> msg_sender = Account 1, msg_value = 10, block_timestamp = 1001000 \<rparr>
        [[10], [11], [12]] 2 sample_chain4
      = Inl (Revert ''Please wait before making another request'')"
proof -
  have "hasShares (registry sample_chain4) (Account 1) = False"
    by (simp add: sample_defs run_simps)
  moreover have "storeShares sample_keccak256 True
        \<lparr> msg_sender = Account 1, msg_value = 10, block_timestamp = 1001000 \<rparr>
        [[10], [11], [12]] 2 sample_chain4
      = Inl (Revert ''Please wait before making another request'')"
    by (simp add: storeShares_def sample_defs run_simps)
  ultimately show ?thesis
    using sample_revoke by simp
qed

text \<open>
  C6, amended. After a successful \<^verbatim>\<open>revokeShares\<close>, every share contract of the caller is
  deployed and inactive: its \<^verbatim>\<open>getShare\<close> reverts with \<open>Share is inactive\<close> for every
  sender, time and registry state, and \<^verbatim>\<open>getShare\<close> of the registry reverts for every
  sender and index. The caller has no active configuration, and a later \<^verbatim>\<open>storeShares\<close>
  of the same caller is accepted when it meets the other checks of \<^verbatim>\<open>storeShares\<close>: the
  registry is not paused, the caller is not blacklisted, the caller is the contract owner
  or at least 300 seconds have passed since the revocation (more than 3600 if the
  caller has 5 or more failed attempts), the fee is paid or exempt and its transfer
  succeeds, there are 3 to 100 shares, none of them empty, and the threshold is at least
  2 and at most the number of shares.
\<close>

theorem revokeShares_then_getShare_and_storeShares:
  assumes "revokeShares tx ch = Inr ch'"
  shows "(\<forall>a \<in> set (userShares (registry ch) (msg_sender tx)).
            \<exists>c. deployed ch' a = Some c
               \<and> (\<forall>reg tx'. SecureShareContract_getShare reg tx' c = Inl (Revert ''Share is inactive'')))
       \<and> (\<forall>tx' index. getShare tx' (msg_sender tx) index ch' = Inl (Revert ''No shares found''))
       \<and> \<not> hasShares (registry ch') (msg_sender tx)
       \<and> (\<forall>keccak256 ok tx2 encryptedShareData threshold.
            msg_sender tx2 = msg_sender tx \<and> msg_sender tx \<noteq> ZeroAddress
            \<and> \<not> pausable_paused (registry ch) \<and> \<not> blacklisted (registry ch) (msg_sender tx)
            \<and> (msg_sender tx = ownable_owner (registry ch)
               \<or> (block_timestamp tx + 300 \<le> block_timestamp tx2
                  \<and> (failedAttempts (registry ch) (msg_sender tx) < 5
                     \<or> block_timestamp tx + 3600 < block_timestamp tx2)))
            \<and> (feeExemptions (registry ch) (msg_sender tx) \<or> serviceFee (registry ch) \<le> msg_value tx2)
            \<and> (msg_value tx2 = 0 \<or> ok)
            \<and> 2 \<le> threshold \<and> threshold \<le> length encryptedShareData
            \<and> 3 \<le> length encryptedShareData \<and> length encryptedShareData \<le> 100
            \<and> (\<forall>d \<in> set encryptedShareData. d \<noteq> [])
          \<longrightarrow> (\<exists>cs ch''. storeShares keccak256 ok tx2 encryptedShareData threshold ch' = Inr (cs, ch'')
                  \<and> hasShares (registry ch'') (msg_sender tx)
                  \<and> cfg_totalShares (shareConfigs (registry ch'') (msg_sender tx))
                      = length encryptedShareData
                  \<and> cfg_threshold (shareConfigs (registry ch'') (msg_sender tx)) = threshold))"
proof (intro conjI)
  note r = revokeShares_result [OF assms]
  show "\<forall>a \<in> set (userShares (registry ch) (msg_sender tx)).
            \<exists>c. deployed ch' a = Some c
               \<and> (\<forall>reg tx'. SecureShareContract_getShare reg tx' c = Inl (Revert ''Share is inactive''))"
  proof
    fix a assume a: "a \<in> set (userShares (registry ch) (msg_sender tx))"
    with r(4) obtain c where c: "deployed ch a = Some c"
      by auto
    with a r(3) have "deployed ch' a = Some (c\<lparr> sc_isActive := False \<rparr>)"
      by simp
    moreover have "\<forall>reg tx'. SecureShareContract_getShare reg tx' (c\<lparr> sc_isActive := False \<rparr>)
        = Inl (Revert ''Share is inactive'')"
      by (simp add: SecureShareContract_getShare_def)
    ultimately show "\<exists>c. deployed ch' a = Some c
               \<and> (\<forall>reg tx'. SecureShareContract_getShare reg tx' c = Inl (Revert ''Share is inactive''))"
      by blast
  qed
  show fresh: "\<not> hasShares (registry ch') (msg_sender tx)"
    by (simp add: r(2) hasShares_def)
  then show "\<forall>tx' index. getShare tx' (msg_sender tx) index ch' = Inl (Revert ''No shares found'')"
    by (simp add: getShare_def Let_def)
  show "\<forall>keccak256 ok tx2 encryptedShareData threshold.
            msg_sender tx2 = msg_sender tx \<and> msg_sender tx \<noteq> ZeroAddress
            \<and> \<not> pausable_paused (registry ch) \<and> \<not> blacklisted (registry ch) (msg_sender tx)
            \<and> (msg_sender tx = ownable_owner (registry ch)
               \<or> (block_timestamp tx + 300 \<le> block_timestamp tx2
                  \<and> (failedAttempts (registry ch) (msg_sender tx) < 5
                     \<or> block_timestamp tx + 3600 < block_timestamp tx2)))
            \<and> (feeExemptions (registry ch) (msg_sender tx) \<or> serviceFee (registry ch) \<le> msg_value tx2)
            \<and> (msg_value tx2 = 0 \<or> ok)
            \<and> 2 \<le> threshold \<and> threshold \<le> length encryptedShareData
            \<and> 3 \<le> length encryptedShareData \<and> length encryptedShareData \<le> 100
            \<and> (\<forall>d \<in> set encryptedShareData. d \<noteq> [])
          \<longrightarrow> (\<exists>cs ch''. storeShares keccak256 ok tx2 encryptedShareData threshold ch' = Inr (cs, ch'')
                  \<and> hasShares (registry ch'') (msg_sender tx)
                  \<and> cfg_totalShares (shareConfigs (registry ch'') (msg_sender tx))
                      = length encryptedShareData
                  \<and> cfg_threshold (shareConfigs (registry ch'') (msg_sender tx)) = threshold)"
  proof (intro allI impI)
    fix keccak256 :: "abi_value list \<Rightarrow> bytes32" and ok :: bool and tx2 :: tx_env
      and encryptedShareData :: "bytes list" and threshold :: nat
    assume p: "msg_sender tx2 = msg_sender tx \<and> msg_sender tx \<noteq> ZeroAddress
            \<and> \<not> pausable_paused (registry ch) \<and> \<not> blacklisted (registry ch) (msg_sender tx)
            \<and> (msg_sender tx = ownable_owner (registry ch)
               \<or> (block_timestamp tx + 300 \<le> block_timestamp tx2
                  \<and> (failedAttempts (registry ch) (msg_sender tx) < 5
                     \<or> block_timestamp tx + 3600 < block_timestamp tx2)))
            \<and> (feeExemptions (registry ch) (msg_sender tx) \<or> serviceFee (registry ch) \<le> msg_value tx2)
            \<and> (msg_value tx2 = 0 \<or> ok)
            \<and> 2 \<le> threshold \<and> threshold \<le> length encryptedShareData
            \<and> 3 \<le> length encryptedShareData \<and> length encryptedShareData \<le> 100
            \<and> (\<forall>d \<in> set encryptedShareData. d \<noteq> [])"
    have "\<exists>cs ch''. storeShares keccak256 ok tx2 encryptedShareData threshold ch' = Inr (cs, ch'')
           \<and> hasShares (registry ch'') (msg_sender tx2)
           \<and> cfg_totalShares (shareConfigs (registry ch'') (msg_sender tx2)) = length encryptedShareData
           \<and> cfg_threshold (shareConfigs (registry ch'') (msg_sender tx2)) = threshold"
    proof (rule storeShares_accepts)
      show "msg_sender tx2 \<noteq> ZeroAddress" using p by simp
      show "\<not> pausable_paused (registry ch')" using p by (simp add: r(2))
      show "\<not> blacklisted (registry ch') (msg_sender tx2)" using p by (simp add: r(2))
      show "msg_sender tx2 = ownable_owner (registry ch')
        \<or> (lastActionTimestamp (registry ch') (msg_sender tx2) + 300 \<le> block_timestamp tx2
           \<and> (failedAttempts (registry ch') (msg_sender tx2) < 5
              \<or> lastActionTimestamp (registry ch') (msg_sender tx2) + 3600 < block_timestamp tx2))"
        using p by (simp add: r(2))
      show "feeExemptions (registry ch') (msg_sender tx2) \<or> serviceFee (registry ch') \<le> msg_value tx2"
        using p by (simp add: r(2))
      show "msg_value tx2 = 0 \<or> ok" using p by simp
      show "0 < threshold" "threshold \<le> length encryptedShareData"
        "3 \<le> length encryptedShareData" "length encryptedShareData \<le> 100"
        using p by simp_all
      show "\<forall>d \<in> set encryptedShareData. d \<noteq> []" using p by simp
      show "\<not> hasShares (registry ch') (msg_sender tx2)" using p fresh by simp
    qed
    with p show "\<exists>cs ch''. storeShares keccak256 ok tx2 encryptedShareData threshold ch' = Inr (cs, ch'')
                  \<and> hasShares (registry ch'') (msg_sender tx)
                  \<and> cfg_totalShares (shareConfigs (registry ch'') (msg_sender tx))
                      = length encryptedShareData
                  \<and> cfg_threshold (shareConfigs (registry ch'') (msg_sender tx)) = threshold"
      by simp
  qed
qed


theorem revokeShares_then_getShare_and_storeShares_witness:
  "deployed sample_chain4 (ShareContractAddress 0) = Some (sample_contract [1, 2, 3] False)
   \<and> SecureShareContract_getShare (registry sample_chain4)
        \<lparr> msg_sender = Account 1, msg_value = 0, block_timestamp = 1001000 \<rparr>
        (sample_contract [1, 2, 3] False) = Inl (Revert ''Share is inactive'')
   \<and> getShare \<lparr> msg_sender = Account 1, msg_value = 0, block_timestamp = 1001000 \<rparr>
        (Account 1) 0 sample_chain4 = Inl (Revert ''No shares found'')
   \<and> \<not> hasShares (registry sample_chain4) (Account 1)
   \<and> storeShares sample_keccak256 True
        \<lparr> msg_sender = Account 1, msg_value = 10, block_timestamp = 1001200 \<rparr>
        [[10], [11], [12]] 2 sample_chain4
      = Inr ([ShareContractAddress 3, ShareContractAddress 4, ShareContractAddress 5], sample_chain5)
   \<and> hasShares (registry sample_chain5) (Account 1)"
proof -
  note t = revokeShares_then_getShare_and_storeShares [OF sample_revoke]
  have d: "deployed sample_chain4 (ShareContractAddress 0) = Some (sample_contract [1, 2, 3] False)"
    by (simp add: sample_defs)
  have "ShareContractAddress 0 \<in> set (userShares (registry sample_chain2)
          (msg_sender \<lparr> msg_sender = Account 1, msg_value = 0, block_timestamp = 1000900 \<rparr>))"
    by (simp add: sample_defs)
  with t d have g: "SecureShareContract_getShare (registry sample_chain4)
        \<lparr> msg_sender = Account 1, msg_value = 0, block_timestamp = 1001000 \<rparr>
        (sample_contract [1, 2, 3] False) = Inl (Revert ''Share is inactive'')"
    by fastforce
  from t have r: "getShare \<lparr> msg_sender = Account 1, msg_value = 0, block_timestamp = 1001000 \<rparr>
        (Account 1) 0 sample_chain4 = Inl (Revert ''No shares found'')"
    and h: "\<not> hasShares (registry sample_chain4) (Account 1)"
    by simp_all
  note s = t [THEN conjunct2, THEN conjunct2, THEN conjunct2, rule_format,
    of "\<lparr> msg_sender = Account 1, msg_value = 10, block_timestamp = 1001200 \<rparr>"
       True 2 "[[10], [11], [12]]" sample_keccak256]
  have "\<exists>cs ch''. storeShares sample_keccak256 True
        \<lparr> msg_sender = Account 1, msg_value = 10, block_timestamp = 1001200 \<rparr>
        [[10], [11], [12]] 2 sample_chain4 = Inr (cs, ch'')
      \<and> hasShares (registry ch'') (Account 1)"
    using s by (simp add: sample_chain2_def sample_chain1_def sample_chain0_def) blast
  with sample_store_again have "hasShares (registry sample_chain5) (Account 1)"
    by simp
  with d g r h sample_store_again show ?thesis
    by simp
qed

section \<open>Retrieval through the registry\<close>

text \<open>
  C3. In the sample run account 1 stores three shares, revokes, and stores three new
  shares; the new configuration is active with 3 shares, created as the share contracts
  3, 4 and 5. \<^verbatim>\<open>getShare\<close> of the registry for index 0 calls \<^verbatim>\<open>userShares[user][0]\<close>,
  which is the share contract 0 of the revoked configuration, and reverts with
  \<open>Share is inactive\<close>. Before the revocation the call reaches the share contract 0 of the
  active configuration with the registry as sender, and reverts there, for the owner
  too, with \<open>Not authorized for this share\<close>. An index that is not below the number of
  shares of the configuration is refused.
\<close>

theorem getShare_after_second_store:
  "revokeShares \<lparr> msg_sender = Account 1, msg_value = 0, block_timestamp = 1000900 \<rparr> sample_chain2
     = Inr sample_chain4
   \<and> storeShares sample_keccak256 True
        \<lparr> msg_sender = Account 1, msg_value = 10, block_timestamp = 1001200 \<rparr>
        [[10], [11], [12]] 2 sample_chain4
      = Inr ([ShareContractAddress 3, ShareContractAddress 4, ShareContractAddress 5], sample_chain5)
   \<and> hasShares (registry sample_chain5) (Account 1)
   \<and> cfg_totalShares (shareConfigs (registry sample_chain5) (Account 1)) = 3
   \<and> getShare_target (registry sample_chain5) (Account 1) 0 = ShareContractAddress 0
   \<and> deployed sample_chain5 (ShareContractAddress 0) = Some (sample_contract [1, 2, 3] False)
   \<and> deployed sample_chain5 (ShareContractAddress 3) = Some (sample_contract [10] True)
   \<and> getShare \<lparr> msg_sender = Account 1, msg_value = 0, block_timestamp = 1001500 \<rparr>
        (Account 1) 0 sample_chain5 = Inl (Revert ''Share is inactive'')
   \<and> getShare \<lparr> msg_sender = Account 1, msg_value = 0, block_timestamp = 1000300 \<rparr>
        (Account 1) 0 sample_chain1 = Inl (Revert ''Not authorized for this share'')
   \<and> getShare \<lparr> msg_sender = Account 1, msg_value = 0, block_timestamp = 1001500 \<rparr>
        (Account 1) 3 sample_chain5 = Inl (Revert ''Invalid share index'')"
proof -
  have "hasShares (registry sample_chain5) (Account 1)
   \<and> cfg_totalShares (shareConfigs (registry sample_chain5) (Account 1)) = 3
   \<and> getShare_target (registry sample_chain5) (Account 1) 0 = ShareContractAddress 0
   \<and> deployed sample_chain5 (ShareContractAddress 0) = Some (sample_contract [1, 2, 3] False)
   \<and> deployed sample_chain5 (ShareContractAddress 3) = Some (sample_contract [10] True)"
    by (simp add: getShare_target_def hasShares_def sample_defs)
  moreover have "getShare \<lparr> msg_sender = Account 1, msg_value = 0, block_timestamp = 1001500 \<rparr>
        (Account 1) 0 sample_chain5 = Inl (Revert ''Share is inactive'')"
    by (simp add: getShare_def getShare_target_def SecureShareContract_getShare_def
          sample_defs run_simps)
  moreover have "getShare \<lparr> msg_sender = Account 1, msg_value = 0, block_timestamp = 1000300 \<rparr>
        (Account 1) 0 sample_chain1 = Inl (Revert ''Not authorized for this share'')"
    by (simp add: getShare_def getShare_target_def SecureShareContract_getShare_def
          isAuthorizedForShare_def sample_defs run_simps)
  moreover have "getShare \<lparr> msg_sender = Account 1, msg_value = 0, block_timestamp = 1001500 \<rparr>
        (Account 1) 3 sample_chain5 = Inl (Revert ''Invalid share index'')"
    by (simp add: getShare_def sample_defs run_simps)
  ultimately show ?thesis
    using sample_revoke sample_store_again by simp
qed

section \<open>The checks of storeShares\<close>

lemma storeShares_rejects:
  assumes "length encryptedShareData < 3 \<or> 100 < length encryptedShareData
         \<or> threshold = 0 \<or> length encryptedShareData < threshold"
  shows "\<exists>e. storeShares keccak256 ok tx encryptedShareData threshold ch = Inl e"
  using assms
  by (auto simp: storeShares_def Let_def split: sum.splits)

text \<open>
  C5. In the sample state after deployment, \<^verbatim>\<open>storeShares\<close> with three shares and
  threshold 1 is accepted: it creates three share contracts and an active configuration
  whose threshold is 1.
\<close>

theorem storeShares_threshold_one_accepted:
  "storeShares sample_keccak256 True
     \<lparr> msg_sender = Account 1, msg_value = 10, block_timestamp = 1000000 \<rparr>
     [[1, 2, 3], [4, 5, 6], [7, 8, 9]] 1 sample_chain0
   = Inr ([ShareContractAddress 0, ShareContractAddress 1, ShareContractAddress 2],
          sample_chain1\<lparr> registry := (registry sample_chain1)
            \<lparr> shareConfigs := (shareConfigs (registry sample_chain1))
                (Account 1 := \<lparr> cfg_totalShares = 3, cfg_threshold = 1,
                   cfg_creationTime = 1000000, cfg_isActive = True, cfg_configHash = 5 \<rparr>) \<rparr> \<rparr>)"
  by (simp add: storeShares_def sample_defs run_simps)


section \<open>The encryption of shares\<close>

lemma small_int_cases:
  assumes "0 \<le> d" "d < (16::int)"
  shows "d = 0 \<or> d = 1 \<or> d = 2 \<or> d = 3 \<or> d = 4 \<or> d = 5 \<or> d = 6 \<or> d = 7
       \<or> d = 8 \<or> d = 9 \<or> d = 10 \<or> d = 11 \<or> d = 12 \<or> d = 13 \<or> d = 14 \<or> d = 15"
  using assms by arith

lemma hex_val_hex_digit:
  assumes "0 \<le> d" "d < 16"
  shows "hex_val (hex_digit d) = Some (nat d)"
  using small_int_cases [OF assms]
  by (elim disjE) (simp_all add: hex_val_def hex_digit_def)

lemma hexToBytes_byteToHex:
  "hexToBytes (byteToHex b @ cs) = (case hexToBytes cs of Inl e \<Rightarrow> Inl e | Inr bs \<Rightarrow> Inr (b # bs))"
proof -
  have lt: "uint b < 256"
    using uint_lt2p [of b] by simp
  have 1: "hex_val (hex_digit (uint b div 16)) = Some (nat (uint b div 16))"
    by (rule hex_val_hex_digit) (use lt in \<open>simp_all add: pos_imp_zdiv_nonneg_iff\<close>)
  have 2: "hex_val (hex_digit (uint b mod 16)) = Some (nat (uint b mod 16))"
    by (rule hex_val_hex_digit) auto
  have "nat (uint b div 16) * 16 + nat (uint b mod 16) = nat (uint b)"
    by (simp add: nat_div_distrib nat_mod_distrib)
  then have 3: "(word_of_nat (nat (uint b div 16) * 16 + nat (uint b mod 16)) :: 8 word) = b"
    by (simp add: nat_uint_eq)
  from 3 have 4: "(word_of_nat (nat (uint b div 16)) * 16 + word_of_int (uint b mod 16) :: 8 word) = b"
    by simp
  show ?thesis
    by (simp add: byteToHex_def 1 2 4 split: sum.splits)
qed

lemma hexToBytes_bytesToHex: "hexToBytes (bytesToHex bs) = Inr bs"
  by (induction bs) (simp_all add: bytesToHex_def hexToBytes_byteToHex)

lemma length_bytesToHex: "length (bytesToHex bs) = 2 * length bs"
  by (induction bs) (simp_all add: bytesToHex_def byteToHex_def)

lemma bytesToHex_append: "bytesToHex (xs @ ys) = bytesToHex xs @ bytesToHex ys"
  by (simp add: bytesToHex_def)

lemma parseFromContract_formatForContract:
  assumes "length (enc_iv e) = 32" "length (enc_ephemPublicKey e) = 130" "length (enc_mac e) = 32"
  shows "parseFromContract (formatForContract e) = e"
  using assms
  by (simp add: parseFromContract_def formatForContract_def startsWith_def js_substring_def Let_def)

lemma sample_hexToBytes:
  "hexToBytes sample_privateKeyHex = Inr (replicate 31 0 @ [5])"
  by code_simp

lemma EccService_decrypt_throws:
  "\<exists>message. EccService_decrypt P privateKeyHex encryptedData = Inl (Error message)"
proof (cases "hexToBytes privateKeyHex")
  case (Inl e)
  then show ?thesis
    by (cases e) (simp add: EccService_decrypt_def)
next
  case (Inr privateKey)
  then show ?thesis
    by (simp add: EccService_decrypt_def)
qed

lemma decryptShare_throws:
  "\<exists>message. decryptShare P privateKeyHex encryptedShareHex = Inl (Error message)"
proof -
  obtain message where
    "EccService_decrypt P privateKeyHex (parseFromContract encryptedShareHex) = Inl (Error message)"
    using EccService_decrypt_throws by blast
  then show ?thesis
    by (simp add: decryptShare_def)
qed

text \<open>
  C7. The claim: for every valid share and every key pair, \<^verbatim>\<open>decryptShare\<close> of the
  private key and the blob that \<^verbatim>\<open>encryptShare\<close> makes for the public key returns the
  share. The code departs from it: \<^verbatim>\<open>EccService.decrypt\<close> reads its parameter
  \<^verbatim>\<open>encryptedData\<close> inside a block that declares a constant of that name further down,
  and throws before it decrypts anything. With the sample primitives, the sample
  private key and its public key form a key pair, \<^verbatim>\<open>encryptShare\<close> returns a blob for
  the share with x = 2 and y = 31, and \<^verbatim>\<open>decryptShare\<close> of that blob throws.
\<close>

theorem decryptShare_of_encryptShare_throws:
  "EccService_importFromPrivateKey sample_primitives sample_privateKeyHex
     = Inr \<lparr> kp_privateKey = sample_privateKeyHex, kp_publicKey = sample_publicKeyHex \<rparr>
   \<and> encryptShare sample_primitives 1700000000000 sample_ephemeralPrivateKey sample_iv
        sample_publicKeyHex sample_share
      = Inr sample_encryptedShare
   \<and> decryptShare sample_primitives sample_privateKeyHex sample_encryptedShare
      = Inl (Error ''Share decryption failed: Cannot access 'encryptedData' before initialization'')"
proof -
  have k: "EccService_importFromPrivateKey sample_primitives sample_privateKeyHex
     = Inr \<lparr> kp_privateKey = sample_privateKeyHex, kp_publicKey = sample_publicKeyHex \<rparr>"
    by (simp add: EccService_importFromPrivateKey_def sample_hexToBytes sample_primitives_def
          sample_primitives0_def sample_publicKeyHex_def)
  have e: "encryptShare sample_primitives 1700000000000 sample_ephemeralPrivateKey sample_iv
        sample_publicKeyHex sample_share
      = Inr sample_encryptedShare"
    by code_simp
  have d: "decryptShare sample_primitives sample_privateKeyHex sample_encryptedShare
      = Inl (Error ''Share decryption failed: Cannot access 'encryptedData' before initialization'')"
    by (simp add: decryptShare_def EccService_decrypt_def sample_hexToBytes)
  from k e d show ?thesis
    by simp
qed


end
